theory Spec2Isabelle
  imports Complex_Main
begin

section \<open>JavaScript numbers\<close>

text \<open>
  The components compute with the TypeScript type \<open>number\<close>. A finite number is
  modelled by the real it denotes, without the sign of zero; the three values that
  division by zero and the square root of a negative number produce, \<open>Infinity\<close>,
  \<open>-Infinity\<close> and \<open>NaN\<close>, are values of their own, with the arithmetic and the
  comparisons ECMAScript gives them. The operations \<open>js_add\<close> to \<open>Math_pow\<close> are
  exact; the operations of the subsection on double precision round their result, and
  the wheel handler, whose anchoring turns on the rounding, is written with them.
\<close>

datatype number = Num real | Infinity | NegInfinity | NaN

fun js_neg :: "number \<Rightarrow> number" where
  "js_neg (Num a) = Num (- a)"
| "js_neg Infinity = NegInfinity"
| "js_neg NegInfinity = Infinity"
| "js_neg NaN = NaN"

fun js_add :: "number \<Rightarrow> number \<Rightarrow> number" where
  "js_add NaN b = NaN"
| "js_add a NaN = NaN"
| "js_add (Num a) (Num b) = Num (a + b)"
| "js_add Infinity NegInfinity = NaN"
| "js_add NegInfinity Infinity = NaN"
| "js_add Infinity b = Infinity"
| "js_add a Infinity = Infinity"
| "js_add NegInfinity b = NegInfinity"
| "js_add a NegInfinity = NegInfinity"

fun js_sub :: "number \<Rightarrow> number \<Rightarrow> number" where
  "js_sub a b = js_add a (js_neg b)"

text \<open>The sign of a number that is not \<open>NaN\<close>: \<open>-1\<close>, \<open>0\<close> or \<open>1\<close>.\<close>

fun js_sign :: "number \<Rightarrow> int" where
  "js_sign (Num a) = (if a < 0 then - 1 else if a = 0 then 0 else 1)"
| "js_sign Infinity = 1"
| "js_sign NegInfinity = - 1"
| "js_sign NaN = 0"

fun js_mul :: "number \<Rightarrow> number \<Rightarrow> number" where
  "js_mul NaN b = NaN"
| "js_mul a NaN = NaN"
| "js_mul (Num a) (Num b) = Num (a * b)"
| "js_mul a b =
     (if js_sign a * js_sign b = 0 then NaN
      else if js_sign a * js_sign b = 1 then Infinity else NegInfinity)"

text \<open>
  Division: a finite number divided by zero is \<open>Infinity\<close> or \<open>-Infinity\<close> by the
  sign of the dividend (the zero divisor read as \<open>+0\<close>), and \<open>0 / 0\<close> is \<open>NaN\<close>.
\<close>

fun js_div :: "number \<Rightarrow> number \<Rightarrow> number" where
  "js_div NaN b = NaN"
| "js_div a NaN = NaN"
| "js_div (Num a) (Num b) =
     (if b \<noteq> 0 then Num (a / b)
      else if a = 0 then NaN
      else if 0 < a then Infinity else NegInfinity)"
| "js_div (Num a) b = Num 0"
| "js_div a (Num b) =
     (if (0 \<le> b) = (a = Infinity) then Infinity else NegInfinity)"
| "js_div a b = NaN"

text \<open>The remainder operator \<open>%\<close>: the result has the sign of the dividend.\<close>

fun js_rem :: "number \<Rightarrow> number \<Rightarrow> number" where
  "js_rem (Num a) (Num b) =
     (if b = 0 then NaN
      else if 0 \<le> a / b then Num (a - b * of_int \<lfloor>a / b\<rfloor>)
      else Num (a - b * of_int \<lceil>a / b\<rceil>))"
| "js_rem (Num a) Infinity = Num a"
| "js_rem (Num a) NegInfinity = Num a"
| "js_rem a b = NaN"

text \<open>Comparisons: every comparison with \<open>NaN\<close> is false.\<close>

fun js_lt :: "number \<Rightarrow> number \<Rightarrow> bool" where
  "js_lt (Num a) (Num b) = (a < b)"
| "js_lt (Num a) Infinity = True"
| "js_lt NegInfinity (Num b) = True"
| "js_lt NegInfinity Infinity = True"
| "js_lt a b = False"

fun js_eq :: "number \<Rightarrow> number \<Rightarrow> bool" where
  "js_eq NaN b = False"
| "js_eq a NaN = False"
| "js_eq a b = (a = b)"

fun js_gt :: "number \<Rightarrow> number \<Rightarrow> bool" where
  "js_gt a b = js_lt b a"

fun js_le :: "number \<Rightarrow> number \<Rightarrow> bool" where
  "js_le a b = (if js_lt a b then True else js_eq a b)"

fun js_ge :: "number \<Rightarrow> number \<Rightarrow> bool" where
  "js_ge a b = js_le b a"

fun Math_min :: "number \<Rightarrow> number \<Rightarrow> number" where
  "Math_min NaN b = NaN"
| "Math_min a NaN = NaN"
| "Math_min a b = (if js_lt b a then b else a)"

fun Math_max :: "number \<Rightarrow> number \<Rightarrow> number" where
  "Math_max NaN b = NaN"
| "Math_max a NaN = NaN"
| "Math_max a b = (if js_lt a b then b else a)"

fun Math_abs :: "number \<Rightarrow> number" where
  "Math_abs (Num a) = Num \<bar>a\<bar>"
| "Math_abs Infinity = Infinity"
| "Math_abs NegInfinity = Infinity"
| "Math_abs NaN = NaN"

fun Math_sqrt :: "number \<Rightarrow> number" where
  "Math_sqrt (Num a) = (if a < 0 then NaN else Num (sqrt a))"
| "Math_sqrt Infinity = Infinity"
| "Math_sqrt NegInfinity = NaN"
| "Math_sqrt NaN = NaN"

text \<open>
  \<open>Math.pow\<close>, in the order of ECMAScript's \<open>Number::exponentiate\<close>: the exponent
  \<open>NaN\<close>, the exponent zero, the base \<open>NaN\<close>, the infinite bases, the base zero, the
  infinite exponents, and the finite case (a negative base has a power only at an
  integer exponent).
\<close>

fun Math_pow :: "number \<Rightarrow> number \<Rightarrow> number" where
  "Math_pow b NaN = NaN"
| "Math_pow b (Num e) =
     (if e = 0 then Num 1
      else case b of
        NaN \<Rightarrow> NaN
      | Infinity \<Rightarrow> (if 0 < e then Infinity else Num 0)
      | NegInfinity \<Rightarrow>
          (if 0 < e then (if e \<in> \<int> \<and> odd \<lfloor>e\<rfloor> then NegInfinity else Infinity)
           else Num 0)
      | Num a \<Rightarrow>
          (if a = 0 then (if 0 < e then Num 0 else Infinity)
           else if 0 < a then Num (a powr e)
           else if e \<in> \<int> then
             (if odd \<lfloor>e\<rfloor> then Num (- (\<bar>a\<bar> powr e)) else Num (\<bar>a\<bar> powr e))
           else NaN))"
| "Math_pow NaN e = NaN"
| "Math_pow (Num a) Infinity =
     (if 1 < \<bar>a\<bar> then Infinity else if \<bar>a\<bar> = 1 then NaN else Num 0)"
| "Math_pow (Num a) NegInfinity =
     (if 1 < \<bar>a\<bar> then Num 0 else if \<bar>a\<bar> = 1 then NaN else Infinity)"
| "Math_pow b Infinity = Infinity"
| "Math_pow b NegInfinity = Num 0"

subsection \<open>Double precision\<close>

text \<open>
  Where a claim turns on rounding, the operations are those of IEEE 754 binary64 with
  round to nearest, ties to even. \<open>rne\<close> rounds a real to the nearest integer, ties to
  the even one. \<open>binexp v\<close> is the exponent of the binade of \<open>v\<close>, the largest \<open>e\<close>
  from \<open>-1022\<close> to \<open>1023\<close> with \<open>2^e \<le> |v|\<close> (\<open>-1022\<close> for the subnormal numbers and
  zero), found by scanning down from \<open>1023\<close>. \<open>binary64 v\<close> is \<open>v\<close> rounded to a
  multiple of \<open>2^(binexp v - 52)\<close>, and the infinity of its sign when that multiple
  reaches \<open>2^1024\<close>.
\<close>

definition rne :: "real \<Rightarrow> int" where
  "rne t =
     (let f = \<lfloor>t\<rfloor>
      in if t - of_int f < 1 / 2 then f
         else if 1 / 2 < t - of_int f then f + 1
         else if even f then f else f + 1)"

fun scanExponent :: "nat \<Rightarrow> real \<Rightarrow> int" where
  "scanExponent 0 v = - 1022"
| "scanExponent (Suc n) v =
     (if 2 powi (int n - 1021) \<le> \<bar>v\<bar> then int n - 1021 else scanExponent n v)"

definition binexp :: "real \<Rightarrow> int" where
  "binexp v = scanExponent 2045 v"

definition binary64 :: "real \<Rightarrow> number" where
  "binary64 v =
     (let q = 2 powi (binexp v - 52);
          r = of_int (rne (v / q)) * q
      in if 2 ^ 1024 \<le> \<bar>r\<bar> then (if 0 < v then Infinity else NegInfinity) else Num r)"

text \<open>
  The result of an operation in double precision: a finite result is rounded, the
  other three values stay.
\<close>

fun rounded :: "number \<Rightarrow> number" where
  "rounded (Num v) = binary64 v"
| "rounded a = a"

definition d_add :: "number \<Rightarrow> number \<Rightarrow> number" where
  "d_add a b = rounded (js_add a b)"

definition d_sub :: "number \<Rightarrow> number \<Rightarrow> number" where
  "d_sub a b = rounded (js_sub a b)"

definition d_mul :: "number \<Rightarrow> number \<Rightarrow> number" where
  "d_mul a b = rounded (js_mul a b)"

definition d_div :: "number \<Rightarrow> number \<Rightarrow> number" where
  "d_div a b = rounded (js_div a b)"

section \<open>The calibration editor (ImageEditor.vue)\<close>

subsection \<open>Data\<close>

text \<open>
  \<open>Point\<close> holds the two fields \<open>x\<close> and \<open>y\<close> that a \<open>Coordinate\<close>, a
  \<open>RenderableImage\<close>, the render origin and the mouse position of the source all
  have; each of those records extends it.
\<close>

record Point =
  x :: number
  y :: number

datatype CoordinateSystem = SysImage | SysCanvas | SysScreen

record Coordinate = Point +
  system :: CoordinateSystem

record HTMLImageElement =
  src :: string
  width :: number
  height :: number

text \<open>
  The interface \<open>RenderableImage\<close>. The fields \<open>image\<close> and \<open>id\<close> are written
  \<open>image'\<close> and \<open>id'\<close> (both names are constants of HOL); an optional field is an
  \<open>option\<close>. The type of the field \<open>image\<close> is a parameter: an
  \<open>HTMLImageElement\<close> in memory, a string in the saved state
  (\<open>Omit<RenderableImage, "image"> & {image: string}\<close>).
\<close>

record 'i RenderableImage_of = Point +
  image' :: 'i
  cropOffsetX :: number
  cropOffsetY :: number
  cropWidth :: number
  cropHeight :: number
  pixelsPerMetre :: number
  label :: "string option"
  id' :: number
  rotationDegrees :: number
  opacity :: number

type_synonym RenderableImage = "HTMLImageElement RenderableImage_of"

datatype CropHandle = XMin | XMax | YMin | YMax

record Box =
  xMin :: number
  xMax :: number
  yMin :: number
  yMax :: number

record CropState = Box +
  currentCropHandles :: "CropHandle list"

text \<open>The fields \<open>end\<close> and \<open>length\<close> of the source are \<open>end'\<close> and \<open>length'\<close>.\<close>

record ScaleState =
  start :: "Coordinate option"
  end' :: "Coordinate option"
  length' :: "number option"

text \<open>The union \<open>CropState | ScaleState\<close>; the constructor is the field \<open>stage\<close>.\<close>

datatype State = Crop CropState | Scale ScaleState

record DOMRect =
  left' :: number
  top' :: number

record MouseEvent =
  clientX :: number
  clientY :: number
  button :: number

text \<open>
  What both components have: \<open>canvas\<close> is the bounding client rectangle of the
  canvas element when it is mounted (\<open>None\<close> while \<open>canvas.value\<close> is null),
  \<open>console\<close> the lines written by \<open>console.error\<close> and \<open>console.warn\<close>.
\<close>

record Component =
  canvas :: "DOMRect option"
  console :: "string list"

text \<open>
  The variables of the editor. Drawing (\<open>render\<close>) and the cursor's style class
  change none of them and are left out; \<open>render\<close> calls \<open>snapLine\<close> on the start
  of the state and a cursor in image coordinates, which are in the same system.
\<close>

record EditorState = Component +
  renderableImage :: RenderableImage
  state :: State
  mouseLocation :: "Coordinate option"
  shiftPressed :: bool

definition CANVAS_WIDTH :: number where "CANVAS_WIDTH = Num 1200"
definition CANVAS_HEIGHT :: number where "CANVAS_HEIGHT = Num 700"
definition CROP_HANDLE_TOLERANCE :: number where "CROP_HANDLE_TOLERANCE = Num 10"

text \<open>
  The component when it is set up for an image: the whole image as crop, the crop
  rectangle 20 pixels inside it. \<open>generateId\<close> is not among the sources; the id it
  returns is the argument \<open>newId\<close>.
\<close>

definition initialState :: "HTMLImageElement \<Rightarrow> number \<Rightarrow> EditorState" where
  "initialState img newId =
     \<lparr>canvas = None, console = [],
      renderableImage =
        \<lparr>x = Num 0, y = Num 0, image' = img, cropOffsetX = Num 0, cropOffsetY = Num 0,
         cropWidth = width img, cropHeight = height img, pixelsPerMetre = Num 0,
         label = None, id' = newId, rotationDegrees = Num 0, opacity = Num 1\<rparr>,
      state = Crop
        \<lparr>xMin = Num 20, xMax = js_sub (width img) (Num 20),
         yMin = Num 20, yMax = js_sub (height img) (Num 20),
         currentCropHandles = []\<rparr>,
      mouseLocation = None, shiftPressed = False\<rparr>"

text \<open>\<open>onMounted\<close>, as far as the state goes: the canvas element exists from then on.\<close>

definition onMounted :: "DOMRect \<Rightarrow> EditorState \<Rightarrow> EditorState" where
  "onMounted rect s = s\<lparr>canvas := Some rect\<rparr>"

definition imageToCanvasScaleFactor :: "EditorState \<Rightarrow> number" where
  "imageToCanvasScaleFactor s =
     Math_min (js_div CANVAS_WIDTH (cropWidth (renderableImage s)))
              (js_div CANVAS_HEIGHT (cropHeight (renderableImage s)))"

text \<open>The text of a coordinate system in a template string.\<close>

fun system_text :: "CoordinateSystem \<Rightarrow> string" where
  "system_text SysImage = ''image''"
| "system_text SysCanvas = ''canvas''"
| "system_text SysScreen = ''screen''"

subsection \<open>Snapping\<close>

text \<open>
  \<open>snapLine\<close> reads the module variable \<open>shiftPressed\<close>, here its first argument,
  and may write to the console: the result is the lines written by \<open>console.error\<close>
  and the coordinate returned.
\<close>

fun snapLine :: "bool \<Rightarrow> Coordinate option \<Rightarrow> Coordinate \<Rightarrow> string list \<times> Coordinate" where
  "snapLine shift None cursor = ([], cursor)"
| "snapLine shift (Some st) cursor =
     (if shift then ([], cursor)
      else if system st \<noteq> system cursor then
        ([''Coordinate system mismatch: '' @ system_text (system st) @ '' and '' @
          system_text (system cursor)], cursor)
      else if js_gt (Math_abs (js_sub (x cursor) (x st)))
                    (Math_abs (js_sub (y cursor) (y st))) then
        ([], \<lparr>x = x cursor, y = y st, system = system cursor\<rparr>)
      else
        ([], \<lparr>x = x st, y = y cursor, system = system cursor\<rparr>))"

subsection \<open>The crop stage\<close>

definition findUsableCropHandles :: "EditorState \<Rightarrow> CropHandle list" where
  "findUsableCropHandles s =
     (case mouseLocation s of
        None \<Rightarrow> []
      | Some m \<Rightarrow>
         (case state s of
            Scale sc \<Rightarrow> []
          | Crop c \<Rightarrow>
             (let f = imageToCanvasScaleFactor s;
                  h1 = (if js_lt (Math_abs (js_sub (x m) (js_mul (xMin c) f)))
                                 CROP_HANDLE_TOLERANCE
                        then [XMin] else []);
                  h2 = (if js_lt (Math_abs (js_sub (x m) (js_mul (xMax c) f)))
                                 CROP_HANDLE_TOLERANCE \<and> XMin \<notin> set h1
                        then h1 @ [XMax] else h1);
                  h3 = (if js_lt (Math_abs (js_sub (y m) (js_mul (yMin c) f)))
                                 CROP_HANDLE_TOLERANCE
                        then h2 @ [YMin] else h2);
                  h4 = (if js_lt (Math_abs (js_sub (y m) (js_mul (yMax c) f)))
                                 CROP_HANDLE_TOLERANCE \<and> YMin \<notin> set h3
                        then h3 @ [YMax] else h3)
              in h4)))"

text \<open>
  The four updates of \<open>handleMouseMove\<close> on the crop rectangle, in the order of the
  source; each reads the rectangle the one before it left. The bound each is clamped
  against is the one the source names: \<open>xMax\<close> for \<open>xMin\<close>, \<open>yMin\<close> for \<open>xMax\<close>,
  \<open>xMax\<close> for \<open>yMin\<close>, \<open>yMin\<close> for \<open>yMax\<close>.
\<close>

definition dragCropHandles :: "Coordinate \<Rightarrow> number \<Rightarrow> CropState \<Rightarrow> CropState" where
  "dragCropHandles m f c =
     (let c1 = (if XMin \<in> set (currentCropHandles c)
                then c\<lparr>xMin := Math_min (js_div (x m) f) (xMax c)\<rparr> else c);
          c2 = (if XMax \<in> set (currentCropHandles c1)
                then c1\<lparr>xMax := Math_max (js_div (x m) f) (yMin c1)\<rparr> else c1);
          c3 = (if YMin \<in> set (currentCropHandles c2)
                then c2\<lparr>yMin := Math_min (js_div (y m) f) (xMax c2)\<rparr> else c2);
          c4 = (if YMax \<in> set (currentCropHandles c3)
                then c3\<lparr>yMax := Math_max (js_div (y m) f) (yMin c3)\<rparr> else c3)
      in c4)"

definition handleMouseMove :: "MouseEvent \<Rightarrow> EditorState \<Rightarrow> EditorState" where
  "handleMouseMove e s =
     (case canvas s of
        None \<Rightarrow> s
      | Some boundingRect \<Rightarrow>
         (let m = \<lparr>x = js_sub (clientX e) (left' boundingRect),
                   y = js_sub (clientY e) (top' boundingRect), system = SysCanvas\<rparr>;
              s1 = s\<lparr>mouseLocation := Some m\<rparr>
          in case state s1 of
               Scale sc \<Rightarrow> s1
             | Crop c \<Rightarrow>
                (if currentCropHandles c \<noteq> []
                 then s1\<lparr>state := Crop (dragCropHandles m (imageToCanvasScaleFactor s1) c)\<rparr>
                 else s1)))"

definition handleMouseDown :: "EditorState \<Rightarrow> EditorState" where
  "handleMouseDown s =
     (case state s of
        Scale sc \<Rightarrow> s
      | Crop c \<Rightarrow>
         (case mouseLocation s of
            None \<Rightarrow> s
          | Some m \<Rightarrow>
             (let handles = findUsableCropHandles s
              in if handles \<noteq> []
                 then s\<lparr>state := Crop (c\<lparr>currentCropHandles := handles\<rparr>)\<rparr>
                 else s)))"

definition handleMouseUp :: "EditorState \<Rightarrow> EditorState" where
  "handleMouseUp s =
     (case state s of
        Scale sc \<Rightarrow> s
      | Crop c \<Rightarrow> s\<lparr>state := Crop (c\<lparr>currentCropHandles := []\<rparr>)\<rparr>)"

definition handleMouseLeave :: "EditorState \<Rightarrow> EditorState" where
  "handleMouseLeave s = s\<lparr>mouseLocation := None\<rparr>"

definition handleNext :: "EditorState \<Rightarrow> EditorState" where
  "handleNext s =
     (case state s of
        Scale sc \<Rightarrow> s
      | Crop c \<Rightarrow>
         s\<lparr>renderableImage := (renderableImage s)
              \<lparr>cropOffsetX := xMin c, cropOffsetY := yMin c,
               cropWidth := js_sub (xMax c) (xMin c),
               cropHeight := js_sub (yMax c) (yMin c)\<rparr>,
           state := Scale \<lparr>start = None, end' = None, length' = None\<rparr>\<rparr>)"

subsection \<open>The scale stage\<close>

definition handleKeyDown :: "string \<Rightarrow> EditorState \<Rightarrow> EditorState" where
  "handleKeyDown code s =
     (if code = ''ShiftLeft'' \<or> code = ''ShiftRight'' then s\<lparr>shiftPressed := True\<rparr> else s)"

definition handleKeyUp :: "string \<Rightarrow> EditorState \<Rightarrow> EditorState" where
  "handleKeyUp code s =
     (if code = ''ShiftLeft'' \<or> code = ''ShiftRight'' then s\<lparr>shiftPressed := False\<rparr> else s)"

definition handleMouseClick :: "MouseEvent \<Rightarrow> EditorState \<Rightarrow> EditorState" where
  "handleMouseClick e s =
     (case canvas s of
        None \<Rightarrow> s
      | Some boundingRect \<Rightarrow>
         (case state s of
            Crop c \<Rightarrow> s
          | Scale sc \<Rightarrow>
             (let f = imageToCanvasScaleFactor s;
                  snapped = snapLine (shiftPressed s) (start sc)
                    \<lparr>x = js_div (js_sub (clientX e) (left' boundingRect)) f,
                     y = js_div (js_sub (clientY e) (top' boundingRect)) f,
                     system = SysImage\<rparr>;
                  s1 = s\<lparr>console := console s @ fst snapped\<rparr>
              in if start sc = None \<or> end' sc \<noteq> None
                 then s1\<lparr>state := Scale (sc\<lparr>start := Some (snd snapped), end' := None\<rparr>)\<rparr>
                 else s1\<lparr>state := Scale (sc\<lparr>end' := Some (snd snapped)\<rparr>)\<rparr>)))"

text \<open>The argument is \<open>valueAsNumber\<close> of the length input.\<close>

definition handleLengthInputChange :: "number \<Rightarrow> EditorState \<Rightarrow> EditorState" where
  "handleLengthInputChange v s =
     (case state s of
        Crop c \<Rightarrow> s
      | Scale sc \<Rightarrow> s\<lparr>state := Scale (sc\<lparr>length' := Some v\<rparr>)\<rparr>)"

definition saveDisabled :: "EditorState \<Rightarrow> bool" where
  "saveDisabled s =
     (case state s of
        Crop c \<Rightarrow> True
      | Scale sc \<Rightarrow> start sc = None \<or> end' sc = None \<or> length' sc = None)"

text \<open>
  \<open>handleSave\<close> returns the state it leaves and the record it hands to \<open>onSave\<close>,
  \<open>None\<close> when it returns without calling \<open>onSave\<close>.
\<close>

definition handleSave :: "EditorState \<Rightarrow> EditorState \<times> RenderableImage option" where
  "handleSave s =
     (case state s of
        Crop c \<Rightarrow> (s, None)
      | Scale sc \<Rightarrow>
         (case start sc of
            None \<Rightarrow> (s, None)
          | Some a \<Rightarrow>
             (case end' sc of
                None \<Rightarrow> (s, None)
              | Some b \<Rightarrow>
                 (case length' sc of
                    None \<Rightarrow> (s, None)
                  | Some l \<Rightarrow>
                     (let xDist = js_sub (x b) (x a);
                          yDist = js_sub (y b) (y a);
                          r = (renderableImage s)
                            \<lparr>pixelsPerMetre :=
                               js_div (Math_sqrt (js_add (js_mul xDist xDist)
                                                         (js_mul yDist yDist))) l\<rparr>
                      in (s\<lparr>renderableImage := r\<rparr>, Some r))))))"

section \<open>The scene composer\<close>

subsection \<open>Data\<close>

text \<open>
  The composer holds references to image objects: the array \<open>images\<close>, the selection
  and the drag session name the same object, and a handler that writes a field through
  one of them changes what the others read. An object is an address of the store
  \<open>heap\<close>; \<open>nextRef\<close> is the first address not yet given out.
\<close>

type_synonym ref = nat

type_synonym SavedState = "string RenderableImage_of list"

record CanvasDrag =
  lastX :: number
  lastY :: number

record ImageDrag = CanvasDrag +
  img :: ref

record WheelEvent = MouseEvent +
  deltaY :: number

text \<open>
  The variables of the composer. \<open>localStorage\<close> is the list of the calls of
  \<open>window.localStorage.setItem\<close> so far, the oldest first, each with its key and the
  value whose JSON text it stores. \<open>loadFinished\<close> is the flag \<open>loadState\<close> sets;
  \<open>loadState\<close> itself (decoding the saved images at startup) and \<open>render\<close> are left
  out.
\<close>

record ComposerState = Component +
  heap :: "ref \<Rightarrow> RenderableImage"
  nextRef :: ref
  images :: "ref list"
  canvasPixelsPerMeter :: number
  renderOrigin :: Point
  selectedImage :: "ref option"
  loadFinished :: bool
  imageDragState :: "ImageDrag option"
  canvasDragState :: "CanvasDrag option"
  mousePos :: "Point option"
  localStorage :: "(string \<times> SavedState) list"

definition SAVE_KEY :: string where "SAVE_KEY = ''state''"

text \<open>\<open>Array.prototype.findIndex\<close>; \<open>None\<close> is the result \<open>-1\<close>.\<close>

fun findIndex :: "('a \<Rightarrow> bool) \<Rightarrow> 'a list \<Rightarrow> nat option" where
  "findIndex p [] = None"
| "findIndex p (a # as) = (if p a then Some 0 else map_option Suc (findIndex p as))"

text \<open>\<open>array.splice(i, 1)\<close>: the array without its element at index \<open>i\<close>.\<close>

definition splice1 :: "nat \<Rightarrow> 'a list \<Rightarrow> 'a list" where
  "splice1 i as = take i as @ drop (Suc i) as"

subsection \<open>Geometry\<close>

definition getImageBoundingBox :: "'i RenderableImage_of \<Rightarrow> Box" where
  "getImageBoundingBox im =
     (let originalWidth = js_div (cropWidth im) (pixelsPerMetre im);
          originalHeight = js_div (cropHeight im) (pixelsPerMetre im)
      in if js_eq (rotationDegrees im) (Num 0) \<or> js_eq (rotationDegrees im) (Num 180)
         then \<lparr>xMin = x im,
               xMax = js_add (x im) originalWidth,
               yMin = y im,
               yMax = js_add (y im) originalHeight\<rparr>
         else \<lparr>xMin = js_sub (js_add (x im) (js_div originalWidth (Num 2)))
                             (js_div originalHeight (Num 2)),
               xMax = js_add (js_add (x im) (js_div originalWidth (Num 2)))
                             (js_div originalHeight (Num 2)),
               yMin = js_sub (js_add (y im) (js_div originalHeight (Num 2)))
                             (js_div originalWidth (Num 2)),
               yMax = js_add (js_add (y im) (js_div originalHeight (Num 2)))
                             (js_div originalWidth (Num 2))\<rparr>)"

subsection \<open>Persistence\<close>

text \<open>The element \<open>{...img, image: img.image.src}\<close> of the saved state.\<close>

definition savedImage :: "RenderableImage \<Rightarrow> string RenderableImage_of" where
  "savedImage i =
     \<lparr>x = x i, y = y i, image' = src (image' i), cropOffsetX = cropOffsetX i,
      cropOffsetY = cropOffsetY i, cropWidth = cropWidth i, cropHeight = cropHeight i,
      pixelsPerMetre = pixelsPerMetre i, label = label i, id' = id' i,
      rotationDegrees = rotationDegrees i, opacity = opacity i\<rparr>"

text \<open>
  \<open>saveState\<close> warns when the load has not finished and goes on (the source has no
  \<open>return\<close> there): it writes the images of the array, in order, in every case.
\<close>

definition saveState :: "ComposerState \<Rightarrow> ComposerState" where
  "saveState s =
     (let s1 = (if loadFinished s then s
                else s\<lparr>console := console s @
                       [''tried to save before load had finished, ignoring'']\<rparr>);
          savedState = map (\<lambda>r. savedImage (heap s1 r)) (images s1)
      in s1\<lparr>localStorage := localStorage s1 @ [(SAVE_KEY, savedState)]\<rparr>)"

text \<open>
  The record the editor hands over is an object the composer has not seen: it gets the
  next address.
\<close>

definition addImageCallback :: "RenderableImage \<Rightarrow> ComposerState \<Rightarrow> ComposerState" where
  "addImageCallback im s =
     saveState (s\<lparr>heap := (heap s)(nextRef s := im),
                  nextRef := Suc (nextRef s),
                  images := nextRef s # images s\<rparr>)"

subsection \<open>Pointer and wheel\<close>

definition handleMouseMove_composer :: "MouseEvent \<Rightarrow> ComposerState \<Rightarrow> ComposerState" where
  "handleMouseMove_composer e s =
     (case canvas s of
        None \<Rightarrow> s
      | Some boundingRect \<Rightarrow>
         (let s1 = s\<lparr>mousePos := Some \<lparr>x = js_sub (clientX e) (left' boundingRect),
                                        y = js_sub (clientY e) (top' boundingRect)\<rparr>\<rparr>
          in case imageDragState s1 of
               Some d \<Rightarrow>
                 (let i = heap s1 (img d);
                      i1 = i\<lparr>x := js_add (x i)
                              (js_div (js_sub (clientX e) (lastX d)) (canvasPixelsPerMeter s1))\<rparr>;
                      i2 = i1\<lparr>y := js_add (y i1)
                              (js_div (js_sub (clientY e) (lastY d)) (canvasPixelsPerMeter s1))\<rparr>
                  in s1\<lparr>heap := (heap s1)(img d := i2),
                        imageDragState := Some (d\<lparr>lastX := clientX e, lastY := clientY e\<rparr>)\<rparr>)
             | None \<Rightarrow>
                 (case canvasDragState s1 of
                    Some d \<Rightarrow>
                      (let o1 = (renderOrigin s1)\<lparr>x := js_sub (x (renderOrigin s1))
                              (js_div (js_sub (clientX e) (lastX d)) (canvasPixelsPerMeter s1))\<rparr>;
                           o2 = o1\<lparr>y := js_sub (y o1)
                              (js_div (js_sub (clientY e) (lastY d)) (canvasPixelsPerMeter s1))\<rparr>
                       in s1\<lparr>renderOrigin := o2,
                             canvasDragState := Some (d\<lparr>lastX := clientX e, lastY := clientY e\<rparr>)\<rparr>)
                  | None \<Rightarrow> s1)))"

text \<open>
  The pointer in world metres, as \<open>handleMouseDown\<close> computes \<open>[mouseX, mouseY]\<close>, and
  the callback it gives to \<open>findIndex\<close>: the bounding box of the image holds the point.
\<close>

definition mouseMetres :: "DOMRect \<Rightarrow> MouseEvent \<Rightarrow> ComposerState \<Rightarrow> number \<times> number" where
  "mouseMetres boundingRect e s =
     (js_add (js_div (js_sub (clientX e) (left' boundingRect)) (canvasPixelsPerMeter s))
             (x (renderOrigin s)),
      js_add (js_div (js_sub (clientY e) (top' boundingRect)) (canvasPixelsPerMeter s))
             (y (renderOrigin s)))"

definition boxHolds :: "number \<times> number \<Rightarrow> 'i RenderableImage_of \<Rightarrow> bool" where
  "boxHolds m im =
     (let bbox = getImageBoundingBox im
      in js_le (xMin bbox) (fst m) \<and> js_ge (xMax bbox) (fst m) \<and>
         js_le (yMin bbox) (snd m) \<and> js_ge (yMax bbox) (snd m))"

definition handleMouseDown_composer :: "MouseEvent \<Rightarrow> ComposerState \<Rightarrow> ComposerState" where
  "handleMouseDown_composer e s =
     (case canvas s of
        None \<Rightarrow> s
      | Some boundingRect \<Rightarrow>
         (if js_eq (button e) (Num 0) then
            (case findIndex (\<lambda>r. boxHolds (mouseMetres boundingRect e s) (heap s r)) (images s) of
               None \<Rightarrow> s\<lparr>selectedImage := None\<rparr>
             | Some imgIdx \<Rightarrow>
                 (let i = images s ! imgIdx;
                      s1 = (if imgIdx \<noteq> 0
                            then saveState (s\<lparr>images := i # splice1 imgIdx (images s)\<rparr>)
                            else s)
                  in s1\<lparr>imageDragState :=
                          Some \<lparr>lastX = clientX e, lastY = clientY e, img = i\<rparr>,
                        selectedImage := Some i\<rparr>))
          else if js_eq (button e) (Num 1) then
            s\<lparr>canvasDragState := Some \<lparr>lastX = clientX e, lastY = clientY e\<rparr>\<rparr>
          else s))"

definition handleMouseUp_composer :: "ComposerState \<Rightarrow> ComposerState" where
  "handleMouseUp_composer s = (saveState s)\<lparr>imageDragState := None, canvasDragState := None\<rparr>"

text \<open>
  \<open>handleMouseWheel\<close> in double precision: every operation of the source is rounded,
  and the literals \<open>1.3\<close> and \<open>0.01\<close> are the doubles nearest to them. ECMAScript
  leaves the accuracy of \<open>Math.pow\<close> to the engine; the engine's function is the first
  argument.
\<close>

definition handleMouseWheel ::
    "(number \<Rightarrow> number \<Rightarrow> number) \<Rightarrow> WheelEvent \<Rightarrow> ComposerState \<Rightarrow> ComposerState" where
  "handleMouseWheel mathPow e s =
     (let multiplier = mathPow (binary64 1.3) (d_mul (deltaY e) (binary64 (- 0.01)));
          s1 = (case mousePos s of
                  None \<Rightarrow> s
                | Some p \<Rightarrow>
                   (let mousePosMetres =
                          \<lparr>x = d_add (d_div (x p) (canvasPixelsPerMeter s)) (x (renderOrigin s)),
                           y = d_add (d_div (y p) (canvasPixelsPerMeter s)) (y (renderOrigin s))\<rparr>;
                        o1 = (renderOrigin s)\<lparr>x := d_sub (x mousePosMetres)
                               (d_div (d_sub (x mousePosMetres) (x (renderOrigin s))) multiplier)\<rparr>;
                        o2 = o1\<lparr>y := d_sub (y mousePosMetres)
                               (d_div (d_sub (y mousePosMetres) (y o1)) multiplier)\<rparr>
                    in s\<lparr>renderOrigin := o2\<rparr>))
      in s1\<lparr>canvasPixelsPerMeter := d_mul (canvasPixelsPerMeter s1) multiplier\<rparr>)"

subsection \<open>The toolbar\<close>

definition handleRotateLeft :: "ComposerState \<Rightarrow> ComposerState" where
  "handleRotateLeft s =
     (case selectedImage s of
        None \<Rightarrow> s
      | Some r \<Rightarrow>
         s\<lparr>heap := (heap s)(r := (heap s r)
              \<lparr>rotationDegrees :=
                 js_rem (js_add (rotationDegrees (heap s r)) (Num 270)) (Num 360)\<rparr>)\<rparr>)"

definition handleRotateRight :: "ComposerState \<Rightarrow> ComposerState" where
  "handleRotateRight s =
     (case selectedImage s of
        None \<Rightarrow> s
      | Some r \<Rightarrow>
         s\<lparr>heap := (heap s)(r := (heap s r)
              \<lparr>rotationDegrees :=
                 js_rem (js_add (rotationDegrees (heap s r)) (Num 90)) (Num 360)\<rparr>)\<rparr>)"

text \<open>
  The first argument is what \<open>prompt\<close> returns: the text entered, \<open>None\<close> for null.
  \<open>prompt(...) || undefined\<close> turns null and the empty text into no label.
\<close>

definition handleRename :: "string option \<Rightarrow> ComposerState \<Rightarrow> ComposerState" where
  "handleRename answer s =
     (case selectedImage s of
        None \<Rightarrow> s
      | Some r \<Rightarrow>
         s\<lparr>heap := (heap s)(r := (heap s r)
              \<lparr>label := (case answer of
                           None \<Rightarrow> None
                         | Some t \<Rightarrow> if t = [] then None else Some t)\<rparr>)\<rparr>)"

text \<open>The first argument is \<open>valueAsNumber\<close> of the opacity input.\<close>

definition handleOpacityChange :: "number \<Rightarrow> ComposerState \<Rightarrow> ComposerState" where
  "handleOpacityChange v s =
     (case selectedImage s of
        None \<Rightarrow> s
      | Some r \<Rightarrow> s\<lparr>heap := (heap s)(r := (heap s r)\<lparr>opacity := v\<rparr>)\<rparr>)"

definition handleDelete :: "ComposerState \<Rightarrow> ComposerState" where
  "handleDelete s =
     (case selectedImage s of
        None \<Rightarrow> s
      | Some r \<Rightarrow>
         (case findIndex (\<lambda>i. js_eq (id' (heap s i)) (id' (heap s r))) (images s) of
            None \<Rightarrow> s
          | Some idx \<Rightarrow> s\<lparr>images := splice1 idx (images s)\<rparr>))"

section \<open>Example states\<close>

text \<open>
  Concrete inputs for the theorems below. The canvas sits at the top left of the page.
  \<open>cropExample\<close> is the editor mounted on a 1200 x 700 image, which the canvas shows
  at scale 1; \<open>scaleExample\<close> is the editor on a 1240 x 740 image after \<open>Next\<close>, its
  crop 1200 x 700, again at scale 1.
\<close>

definition pointer :: "real \<Rightarrow> real \<Rightarrow> MouseEvent" where
  "pointer a b = \<lparr>clientX = Num a, clientY = Num b, button = Num 0\<rparr>"

definition topLeft :: DOMRect where
  "topLeft = \<lparr>left' = Num 0, top' = Num 0\<rparr>"

definition cropExample :: EditorState where
  "cropExample =
     onMounted topLeft
       (initialState \<lparr>src = ''data:plan'', width = Num 1200, height = Num 700\<rparr> (Num 1))"

definition scaleExample :: EditorState where
  "scaleExample =
     handleNext (onMounted topLeft
       (initialState \<lparr>src = ''data:plan'', width = Num 1240, height = Num 740\<rparr> (Num 1)))"

text \<open>
  The composer as the component sets it up, and scenes built from it by its own
  handlers. An address not yet given out holds \<open>blankImage\<close>. \<open>planAt a n\<close> is a
  calibrated image of 4 x 2 metres at \<open>(a, 0)\<close> with id \<open>n\<close>. \<open>sceneOne\<close> has one
  image, added and then clicked; \<open>sceneFive\<close> has five, side by side, the one added
  last in front.
\<close>

definition blankImage :: RenderableImage where
  "blankImage =
     \<lparr>x = Num 0, y = Num 0, image' = \<lparr>src = [], width = Num 0, height = Num 0\<rparr>,
      cropOffsetX = Num 0, cropOffsetY = Num 0, cropWidth = Num 0, cropHeight = Num 0,
      pixelsPerMetre = Num 0, label = None, id' = Num 0, rotationDegrees = Num 0,
      opacity = Num 0\<rparr>"

definition initialComposer :: ComposerState where
  "initialComposer =
     \<lparr>canvas = None, console = [], heap = (\<lambda>r. blankImage), nextRef = 0, images = [],
      canvasPixelsPerMeter = Num 50, renderOrigin = \<lparr>x = Num 0, y = Num 0\<rparr>,
      selectedImage = None, loadFinished = False, imageDragState = None,
      canvasDragState = None, mousePos = None, localStorage = []\<rparr>"

definition mounted :: "ComposerState \<Rightarrow> ComposerState" where
  "mounted s = s\<lparr>canvas := Some topLeft\<rparr>"

definition planAt :: "real \<Rightarrow> real \<Rightarrow> RenderableImage" where
  "planAt a n =
     \<lparr>x = Num a, y = Num 0,
      image' = \<lparr>src = ''data:plan'', width = Num 440, height = Num 240\<rparr>,
      cropOffsetX = Num 20, cropOffsetY = Num 20, cropWidth = Num 400, cropHeight = Num 200,
      pixelsPerMetre = Num 100, label = None, id' = Num n, rotationDegrees = Num 0,
      opacity = Num 1\<rparr>"

definition sceneOne :: ComposerState where
  "sceneOne =
     handleMouseUp_composer
       (handleMouseDown_composer (pointer 10 10)
         (addImageCallback (planAt 0 1) (mounted initialComposer)))"

definition sceneFive :: ComposerState where
  "sceneFive =
     addImageCallback (planAt 0 5)
       (addImageCallback (planAt 10 4)
         (addImageCallback (planAt 20 3)
           (addImageCallback (planAt 30 2)
             (addImageCallback (planAt 40 1) (mounted initialComposer)))))"

text \<open>
  \<open>sceneSelected\<close> is \<open>sceneFive\<close> after a click at \<open>(1050, 50)\<close>, which is the
  world point \<open>(21, 1)\<close>, on the third image.
\<close>

definition sceneSelected :: ComposerState where
  "sceneSelected =
     handleMouseUp_composer (handleMouseDown_composer (pointer 1050 50) sceneFive)"

text \<open>
  \<open>sceneCamera\<close> is \<open>sceneFive\<close> with the canvas at \<open>(8, 60)\<close> on the page and the
  zoom 65, after a drag with the middle button from \<open>(300, 200)\<close> to \<open>(170, 135)\<close>,
  which moves the origin of the camera to \<open>(2, 1)\<close>.
\<close>

definition sceneCamera :: ComposerState where
  "sceneCamera =
     handleMouseUp_composer
       (handleMouseMove_composer \<lparr>clientX = Num 170, clientY = Num 135, button = Num 1\<rparr>
         (handleMouseDown_composer \<lparr>clientX = Num 300, clientY = Num 200, button = Num 1\<rparr>
           (sceneFive\<lparr>canvas := Some \<lparr>left' = Num 8, top' = Num 60\<rparr>,
                      canvasPixelsPerMeter := Num 65\<rparr>)))"

text \<open>
  For the wheel: \<open>wheelScene\<close> is the empty composer with the pointer at \<open>(1, 1)\<close>,
  \<open>wheel d\<close> a wheel event there with \<open>deltaY = d\<close>, and \<open>roundedPow\<close> an engine
  whose \<open>Math.pow\<close> is correctly rounded.
\<close>

definition wheelScene :: ComposerState where
  "wheelScene = handleMouseMove_composer (pointer 1 1) (mounted initialComposer)"

definition wheel :: "real \<Rightarrow> WheelEvent" where
  "wheel d = \<lparr>clientX = Num 1, clientY = Num 1, button = Num 0, deltaY = Num d\<rparr>"

definition roundedPow :: "number \<Rightarrow> number \<Rightarrow> number" where
  "roundedPow b e = rounded (Math_pow b e)"

section \<open>Facts about the model\<close>

lemmas example_defs =
  pointer_def topLeft_def cropExample_def scaleExample_def onMounted_def initialState_def
  CANVAS_WIDTH_def CANVAS_HEIGHT_def CROP_HANDLE_TOLERANCE_def blankImage_def
  initialComposer_def mounted_def planAt_def sceneOne_def sceneFive_def SAVE_KEY_def

lemmas editor_defs =
  imageToCanvasScaleFactor_def findUsableCropHandles_def dragCropHandles_def
  handleMouseMove_def handleMouseDown_def handleMouseUp_def handleNext_def
  handleMouseClick_def handleLengthInputChange_def saveDisabled_def handleSave_def

lemmas composer_defs =
  splice1_def getImageBoundingBox_def savedImage_def saveState_def addImageCallback_def
  mouseMetres_def boxHolds_def handleMouseDown_composer_def handleMouseUp_composer_def
  handleMouseMove_composer_def handleRotateLeft_def
  handleRotateRight_def handleRename_def handleOpacityChange_def handleDelete_def

subsection \<open>Numbers\<close>

lemma js_eq_imp_eq: "js_eq a b \<Longrightarrow> a = b"
  by (cases a; cases b) simp_all

lemma js_eq_refl_iff: "js_eq a a \<longleftrightarrow> a \<noteq> NaN"
  by (cases a) simp_all

text \<open>The length of the line between two finite points, as \<open>handleSave\<close> computes it.\<close>

lemma js_dist_finite:
  "Math_sqrt (js_add (js_mul (js_sub (Num bx) (Num ax)) (js_sub (Num bx) (Num ax)))
                     (js_mul (js_sub (Num by) (Num ay)) (js_sub (Num by) (Num ay))))
   = Num (sqrt ((bx - ax)\<^sup>2 + (by - ay)\<^sup>2))"
  by (simp add: power2_eq_square not_less)

lemma dist_zero_iff: "sqrt ((bx - ax)\<^sup>2 + (by - ay)\<^sup>2) = 0 \<longleftrightarrow> ax = bx \<and> ay = by"
  by (auto simp: sum_power2_eq_zero_iff)

lemma sqrt_90000: "sqrt 90000 = 300"
  by (rule real_sqrt_unique) simp_all

subsection \<open>Arrays\<close>

lemma findIndex_Some_iff:
  "findIndex p as = Some i \<longleftrightarrow> i < length as \<and> p (as ! i) \<and> (\<forall>j<i. \<not> p (as ! j))"
proof (induction as arbitrary: i)
  case Nil
  then show ?case by simp
next
  case (Cons a as)
  show ?case
  proof (cases "p a")
    case True
    then show ?thesis by (cases i) auto
  next
    case False
    show ?thesis
    proof (cases i)
      case 0
      with False show ?thesis by auto
    next
      case (Suc k)
      have "(\<forall>j<Suc k. \<not> p ((a # as) ! j)) \<longleftrightarrow> (\<forall>j<k. \<not> p (as ! j))"
        using False by (auto simp: less_Suc_eq_0_disj)
      with False Suc Cons.IH [of k] show ?thesis by auto
    qed
  qed
qed

lemma findIndex_None_iff: "findIndex p as = None \<longleftrightarrow> (\<forall>a \<in> set as. \<not> p a)"
  by (induction as) auto

lemma splice1_distinct:
  "distinct as \<Longrightarrow> i < length as \<Longrightarrow> splice1 i as = removeAll (as ! i) as"
proof (induction as arbitrary: i)
  case Nil
  then show ?case by simp
next
  case (Cons a as)
  show ?case
  proof (cases i)
    case 0
    with Cons.prems show ?thesis by (simp add: splice1_def)
  next
    case (Suc k)
    with Cons.prems have "splice1 k as = removeAll (as ! k) as" and "as ! k \<noteq> a"
      using Cons.IH [of k] by auto
    with Suc show ?thesis by (simp add: splice1_def)
  qed
qed

subsection \<open>The example scenes\<close>

lemma pointer_fields:
  "clientX (pointer a b) = Num a" "clientY (pointer a b) = Num b"
  "button (pointer a b) = Num 0"
  by (simp_all add: pointer_def)

lemma sceneFive_images: "images sceneFive = [4, 3, 2, 1, 0]"
  by (simp add: example_defs composer_defs Let_def)

lemma sceneFive_canvas: "canvas sceneFive = Some topLeft"
  by (simp add: example_defs composer_defs Let_def)

lemma sceneFive_pointer: "mouseMetres topLeft (pointer 1050 50) sceneFive = (Num 21, Num 1)"
  by (simp add: example_defs composer_defs Let_def)

lemma sceneFive_heap:
  "heap sceneFive 4 = planAt 0 5 \<and> heap sceneFive 3 = planAt 10 4
   \<and> heap sceneFive 2 = planAt 20 3 \<and> heap sceneFive (Suc 0) = planAt 30 2
   \<and> heap sceneFive 0 = planAt 40 1"
  by (simp add: sceneFive_def initialComposer_def mounted_def addImageCallback_def
      saveState_def Let_def)

lemma planAt_holds:
  "boxHolds (Num mx, Num my) (planAt a n) \<longleftrightarrow> a \<le> mx \<and> mx \<le> a + 4 \<and> 0 \<le> my \<and> my \<le> 2"
  by (auto simp: boxHolds_def getImageBoundingBox_def planAt_def Let_def)

lemma sceneSelected_eval:
  "images sceneSelected = [2, 4, 3, 1, 0] \<and> selectedImage sceneSelected = Some 2
   \<and> heap sceneSelected = heap sceneFive"
  by (simp add: sceneSelected_def handleMouseUp_composer_def handleMouseDown_composer_def
      sceneFive_canvas sceneFive_images sceneFive_pointer sceneFive_heap planAt_holds
      pointer_fields saveState_def splice1_def Let_def)

lemma sceneOne_eval:
  "images sceneOne = [0] \<and> selectedImage sceneOne = Some 0 \<and> heap sceneOne 0 = planAt 0 1
   \<and> map fst (localStorage sceneOne) = [''state'', ''state'']"
  by (simp add: example_defs composer_defs Let_def)

section \<open>The crop rectangle\<close>

text \<open>
  Claim C1: while crop handles are held, every pointer move leaves \<open>xMin \<le> xMax\<close> and
  \<open>yMin \<le> yMax\<close>, each held bound being clamped against the opposite bound of its
  own axis. The source clamps \<open>yMin\<close> against \<open>xMax\<close> (and \<open>xMax\<close> against
  \<open>yMin\<close>), and the rectangle inverts. On the 1200 x 700 image the rectangle starts
  as \<open>20 \<le> x \<le> 1180\<close>, \<open>20 \<le> y \<le> 680\<close>; the pointer goes to \<open>(600, 20)\<close>, on
  the top edge, the button is pressed, which takes the handle \<open>yMin\<close>, and the
  pointer moves down to \<open>(600, 690)\<close>: \<open>yMin\<close> becomes \<open>min(690, xMax) = 690\<close>, above
  \<open>yMax = 680\<close>.
\<close>

theorem handleMouseMove_inverts_crop:
  "state cropExample
     = Crop \<lparr>xMin = Num 20, xMax = Num 1180, yMin = Num 20, yMax = Num 680,
             currentCropHandles = []\<rparr>
   \<and> state (handleMouseDown (handleMouseMove (pointer 600 20) cropExample))
     = Crop \<lparr>xMin = Num 20, xMax = Num 1180, yMin = Num 20, yMax = Num 680,
             currentCropHandles = [YMin]\<rparr>
   \<and> state (handleMouseMove (pointer 600 690)
              (handleMouseDown (handleMouseMove (pointer 600 20) cropExample)))
     = Crop \<lparr>xMin = Num 20, xMax = Num 1180, yMin = Num 690, yMax = Num 680,
             currentCropHandles = [YMin]\<rparr>
   \<and> js_le (Num 690) (Num 680) = False"
  by (simp add: example_defs editor_defs Let_def)

text \<open>
  The same slip on the other axis: with \<open>yMin\<close> dragged up to 5 and released, the
  handle \<open>xMax\<close> is taken at \<open>(1180, 300)\<close> and dragged left to \<open>(10, 300)\<close>;
  \<open>xMax\<close> becomes \<open>max(10, yMin) = 10\<close>, left of \<open>xMin = 20\<close>.
\<close>

lemma handleMouseMove_inverts_crop_xMax:
  "state (handleMouseMove (pointer 10 300)
            (handleMouseDown (handleMouseMove (pointer 1180 300)
              (handleMouseUp (handleMouseMove (pointer 600 5)
                (handleMouseDown (handleMouseMove (pointer 600 20) cropExample)))))))
     = Crop \<lparr>xMin = Num 20, xMax = Num 10, yMin = Num 5, yMax = Num 680,
             currentCropHandles = [XMax]\<rparr>"
  by (simp add: example_defs editor_defs Let_def)

section \<open>Snapping the reference line\<close>

text \<open>Whatever \<open>snapLine\<close> returns is in the coordinate system of the cursor.\<close>

lemma snapLine_system: "system (snd (snapLine sh st c)) = system c"
  by (cases st) simp_all

text \<open>
  Claim C7: for a start and a cursor in the same coordinate system, shift not pressed,
  \<open>snapLine\<close> returns \<open>(cursor.x, start.y)\<close> when
  \<open>|cursor.x - start.x| > |cursor.y - start.y|\<close> and \<open>(start.x, cursor.y)\<close> otherwise;
  with shift pressed, or with no start, it returns the cursor unchanged. The third
  conjunct is the rule for all numbers, in the comparisons of the source; the fourth
  reads it for finite coordinates; the last two are the start \<open>(10, 10)\<close> with the
  cursors \<open>(10, 50)\<close> and \<open>(50, 10)\<close>.
\<close>

theorem snapLine_snaps:
  "snapLine True st c = ([], c)
   \<and> snapLine sh None c = ([], c)
   \<and> (system a = system c \<longrightarrow>
        snapLine False (Some a) c =
          ([], if js_gt (Math_abs (js_sub (x c) (x a))) (Math_abs (js_sub (y c) (y a)))
               then \<lparr>x = x c, y = y a, system = system c\<rparr>
               else \<lparr>x = x a, y = y c, system = system c\<rparr>))
   \<and> snapLine False (Some \<lparr>x = Num ax, y = Num ay, system = sys\<rparr>)
                      \<lparr>x = Num cx, y = Num cy, system = sys\<rparr> =
        ([], if \<bar>cx - ax\<bar> > \<bar>cy - ay\<bar>
             then \<lparr>x = Num cx, y = Num ay, system = sys\<rparr>
             else \<lparr>x = Num ax, y = Num cy, system = sys\<rparr>)
   \<and> snapLine False (Some \<lparr>x = Num 10, y = Num 10, system = SysImage\<rparr>)
                      \<lparr>x = Num 10, y = Num 50, system = SysImage\<rparr> =
        ([], \<lparr>x = Num 10, y = Num 50, system = SysImage\<rparr>)
   \<and> snapLine False (Some \<lparr>x = Num 10, y = Num 10, system = SysImage\<rparr>)
                      \<lparr>x = Num 50, y = Num 10, system = SysImage\<rparr> =
        ([], \<lparr>x = Num 50, y = Num 10, system = SysImage\<rparr>)"
proof -
  have "snapLine True st c = ([], c)"
    by (cases st) simp_all
  then show ?thesis
    by simp
qed

text \<open>
  The rule at a start \<open>(10, 10)\<close> and a cursor \<open>(40, 30)\<close> off both axes: the
  horizontal distance is the larger, and the end is \<open>(40, 10)\<close>.
\<close>

theorem snapLine_snaps_witness:
  "system \<lparr>x = Num 10, y = Num 10, system = SysImage\<rparr> =
     system \<lparr>x = Num 40, y = Num 30, system = SysImage\<rparr>
   \<and> snapLine False (Some \<lparr>x = Num 10, y = Num 10, system = SysImage\<rparr>)
                      \<lparr>x = Num 40, y = Num 30, system = SysImage\<rparr> =
        ([], \<lparr>x = Num 40, y = Num 10, system = SysImage\<rparr>)"
  using snapLine_snaps
    [of None "\<lparr>x = Num 40, y = Num 30, system = SysImage\<rparr>" False
        "\<lparr>x = Num 10, y = Num 10, system = SysImage\<rparr>" 10 10 SysImage 40 30]
  by simp

text \<open>
  Claim C9: when the coordinate systems of the start and the cursor differ (shift not
  pressed), \<open>snapLine\<close> raises nothing: it writes one line to the console, naming the
  two systems, and returns the cursor as it came.
\<close>

theorem snapLine_mismatch:
  assumes "system a \<noteq> system c"
  shows "snapLine False (Some a) c =
           ([''Coordinate system mismatch: '' @ system_text (system a) @ '' and '' @
             system_text (system c)], c)"
  using assms by simp

theorem snapLine_mismatch_witness:
  "system \<lparr>x = Num 10, y = Num 10, system = SysImage\<rparr> \<noteq>
     system \<lparr>x = Num 40, y = Num 30, system = SysCanvas\<rparr>
   \<and> snapLine False (Some \<lparr>x = Num 10, y = Num 10, system = SysImage\<rparr>)
                      \<lparr>x = Num 40, y = Num 30, system = SysCanvas\<rparr> =
        ([''Coordinate system mismatch: image and canvas''],
         \<lparr>x = Num 40, y = Num 30, system = SysCanvas\<rparr>)"
  using snapLine_mismatch
    [of "\<lparr>x = Num 10, y = Num 10, system = SysImage\<rparr>"
        "\<lparr>x = Num 40, y = Num 30, system = SysCanvas\<rparr>"]
  by simp

section \<open>Completing a calibration\<close>

text \<open>
  Claim C3: when \<open>handleSave\<close> runs in the scale stage with start, end and length
  defined, the record it hands to \<open>onSave\<close> has \<open>pixelsPerMetre\<close> equal to
  \<open>sqrt((end.x - start.x)^2 + (end.y - start.y)^2) / length\<close>, on the coordinates as
  the state holds them (image pixels). The first conjunct is the formula in the
  operations of the source, for all numbers; the second reads it for finite coordinates
  and a finite length other than zero.
\<close>

theorem handleSave_pixelsPerMetre:
  assumes "state s = Scale \<lparr>start = Some a, end' = Some b, length' = Some l\<rparr>"
  shows "snd (handleSave s) =
           Some ((renderableImage s)\<lparr>pixelsPerMetre :=
             js_div (Math_sqrt (js_add (js_mul (js_sub (x b) (x a)) (js_sub (x b) (x a)))
                                       (js_mul (js_sub (y b) (y a)) (js_sub (y b) (y a))))) l\<rparr>)
         \<and> (x a = Num ax \<and> y a = Num ay \<and> x b = Num bx \<and> y b = Num by \<and>
              l = Num v \<and> v \<noteq> 0 \<longrightarrow>
              map_option pixelsPerMetre (snd (handleSave s)) =
                Some (Num (sqrt ((bx - ax)\<^sup>2 + (by - ay)\<^sup>2) / v)))"
  using assms by (simp add: handleSave_def Let_def js_dist_finite del: js_sub.simps)

text \<open>
  The example of the claim, by the handlers: on \<open>scaleExample\<close> a click at \<open>(0, 0)\<close>
  sets the start, a click at \<open>(300, 0)\<close> the end, both in image pixels, the length
  input is set to 3, and the record saved has 100 pixels per metre.
\<close>

theorem handleSave_pixelsPerMetre_witness:
  "state (handleLengthInputChange (Num 3)
            (handleMouseClick (pointer 300 0) (handleMouseClick (pointer 0 0) scaleExample)))
     = Scale \<lparr>start = Some \<lparr>x = Num 0, y = Num 0, system = SysImage\<rparr>,
               end' = Some \<lparr>x = Num 300, y = Num 0, system = SysImage\<rparr>,
               length' = Some (Num 3)\<rparr>
   \<and> map_option pixelsPerMetre
        (snd (handleSave (handleLengthInputChange (Num 3)
            (handleMouseClick (pointer 300 0) (handleMouseClick (pointer 0 0) scaleExample)))))
     = Some (Num 100)"
proof -
  have st: "state (handleLengthInputChange (Num 3)
            (handleMouseClick (pointer 300 0) (handleMouseClick (pointer 0 0) scaleExample)))
     = Scale \<lparr>start = Some \<lparr>x = Num 0, y = Num 0, system = SysImage\<rparr>,
               end' = Some \<lparr>x = Num 300, y = Num 0, system = SysImage\<rparr>,
               length' = Some (Num 3)\<rparr>"
    by (simp add: example_defs editor_defs Let_def)
  show ?thesis
    using st handleSave_pixelsPerMetre [OF st, of 0 0 300 0 3]
    by (simp add: sqrt_90000)
qed

text \<open>
  Claim C8: completing a calibration is gated only on start, end and length being
  defined; a zero length input or a zero-length line is not rejected, and the record
  saved then has an infinite or undefined \<open>pixelsPerMetre\<close>. The last part fails for a
  line of length zero with a length input other than zero: two clicks at \<open>(5, 5)\<close> and
  the length 2 enable saving, and the record saved has \<open>pixelsPerMetre = 0 / 2 = 0\<close>,
  which is neither infinite nor \<open>NaN\<close>.
\<close>

theorem handleSave_zero_line_counterexample:
  "saveDisabled (handleLengthInputChange (Num 2)
       (handleMouseClick (pointer 5 5) (handleMouseClick (pointer 5 5) scaleExample))) = False
   \<and> map_option pixelsPerMetre (snd (handleSave (handleLengthInputChange (Num 2)
       (handleMouseClick (pointer 5 5) (handleMouseClick (pointer 5 5) scaleExample)))))
     = Some (Num 0)
   \<and> Num 0 \<noteq> Infinity \<and> Num 0 \<noteq> NegInfinity \<and> Num 0 \<noteq> NaN"
  by (simp add: example_defs editor_defs Let_def)

text \<open>
  Claim C8 as amended: saving is disabled exactly when \<open>handleSave\<close> hands over no
  record, and exactly when the state is not a scale state with start, end and length
  defined; no condition on their values. With the length input 0 and finite points the
  record saved has \<open>pixelsPerMetre\<close> \<open>Infinity\<close>, or \<open>NaN\<close> when the two points are the
  same; with a line of length zero and a finite length other than zero it has
  \<open>pixelsPerMetre = 0\<close>.
\<close>

theorem handleSave_degenerate:
  "(saveDisabled s \<longleftrightarrow> snd (handleSave s) = None)
   \<and> (saveDisabled s \<longleftrightarrow>
        (\<forall>a b l. state s \<noteq> Scale \<lparr>start = Some a, end' = Some b, length' = Some l\<rparr>))
   \<and> (state s = Scale \<lparr>start = Some \<lparr>x = Num ax, y = Num ay, system = sa\<rparr>,
                       end' = Some \<lparr>x = Num bx, y = Num by, system = sb\<rparr>,
                       length' = Some (Num 0)\<rparr> \<longrightarrow>
         map_option pixelsPerMetre (snd (handleSave s)) =
           Some (if ax = bx \<and> ay = by then NaN else Infinity))
   \<and> (state s = Scale \<lparr>start = Some \<lparr>x = Num ax, y = Num ay, system = sa\<rparr>,
                       end' = Some \<lparr>x = Num ax, y = Num ay, system = sb\<rparr>,
                       length' = Some (Num v)\<rparr> \<and> v \<noteq> 0 \<longrightarrow>
         map_option pixelsPerMetre (snd (handleSave s)) = Some (Num 0))"
proof -
  have gate: "saveDisabled s \<longleftrightarrow> snd (handleSave s) = None"
    by (simp add: saveDisabled_def handleSave_def Let_def split: State.splits option.splits)
  have shape: "saveDisabled s \<longleftrightarrow>
        (\<forall>a b l. state s \<noteq> Scale \<lparr>start = Some a, end' = Some b, length' = Some l\<rparr>)"
  proof (cases "state s")
    case (Crop c)
    then show ?thesis by (simp add: saveDisabled_def)
  next
    case (Scale sc)
    then show ?thesis
      by (cases sc) (auto simp: saveDisabled_def)
  qed
  have zero_length: "map_option pixelsPerMetre (snd (handleSave s)) =
           Some (if ax = bx \<and> ay = by then NaN else Infinity)"
    if "state s = Scale \<lparr>start = Some \<lparr>x = Num ax, y = Num ay, system = sa\<rparr>,
                       end' = Some \<lparr>x = Num bx, y = Num by, system = sb\<rparr>,
                       length' = Some (Num 0)\<rparr>"
  proof -
    have "0 \<le> sqrt ((bx - ax)\<^sup>2 + (by - ay)\<^sup>2)" by simp
    then show ?thesis
      using that dist_zero_iff [of bx ax "by" ay]
      by (simp add: handleSave_def Let_def js_dist_finite less_le del: js_sub.simps)
  qed
  have zero_line: "map_option pixelsPerMetre (snd (handleSave s)) = Some (Num 0)"
    if "state s = Scale \<lparr>start = Some \<lparr>x = Num ax, y = Num ay, system = sa\<rparr>,
                       end' = Some \<lparr>x = Num ax, y = Num ay, system = sb\<rparr>,
                       length' = Some (Num v)\<rparr>" and "v \<noteq> 0"
    using that by (simp add: handleSave_def Let_def)
  show ?thesis
    using gate shape zero_length zero_line by blast
qed

text \<open>
  A line from \<open>(0, 0)\<close> to \<open>(300, 0)\<close> with the length input 0: saving is enabled and
  the record saved has \<open>pixelsPerMetre = Infinity\<close>.
\<close>

theorem handleSave_degenerate_witness:
  "state (handleLengthInputChange (Num 0)
            (handleMouseClick (pointer 300 0) (handleMouseClick (pointer 0 0) scaleExample)))
     = Scale \<lparr>start = Some \<lparr>x = Num 0, y = Num 0, system = SysImage\<rparr>,
               end' = Some \<lparr>x = Num 300, y = Num 0, system = SysImage\<rparr>,
               length' = Some (Num 0)\<rparr>
   \<and> saveDisabled (handleLengthInputChange (Num 0)
            (handleMouseClick (pointer 300 0) (handleMouseClick (pointer 0 0) scaleExample)))
     = False
   \<and> map_option pixelsPerMetre
        (snd (handleSave (handleLengthInputChange (Num 0)
            (handleMouseClick (pointer 300 0) (handleMouseClick (pointer 0 0) scaleExample)))))
     = Some Infinity"
proof -
  have st: "state (handleLengthInputChange (Num 0)
            (handleMouseClick (pointer 300 0) (handleMouseClick (pointer 0 0) scaleExample)))
     = Scale \<lparr>start = Some \<lparr>x = Num 0, y = Num 0, system = SysImage\<rparr>,
               end' = Some \<lparr>x = Num 300, y = Num 0, system = SysImage\<rparr>,
               length' = Some (Num 0)\<rparr>"
    by (simp add: example_defs editor_defs Let_def)
  show ?thesis
    using st handleSave_degenerate
      [of "handleLengthInputChange (Num 0)
            (handleMouseClick (pointer 300 0) (handleMouseClick (pointer 0 0) scaleExample))"
          0 0 SysImage 300 0 SysImage 1]
    by auto
qed

section \<open>Bounding boxes\<close>

text \<open>
  Claim C4: for an image with \<open>rotationDegrees\<close> 90 or 270 the bounding box is the
  swap of the dimensions about the centre: with \<open>w = cropWidth / pixelsPerMetre\<close> and
  \<open>h = cropHeight / pixelsPerMetre\<close>, \<open>xMin = x + w/2 - h/2\<close>,
  \<open>xMax = x + w/2 + h/2\<close>, \<open>yMin = y + h/2 - w/2\<close>, \<open>yMax = y + h/2 + w/2\<close>; for 0
  and 180 it is \<open>(x, x + w, y, y + h)\<close>. An image at \<open>(0, 0)\<close> of size 4 x 2,
  turned by 90, has the box \<open>xMin = 1\<close>, \<open>xMax = 3\<close>, \<open>yMin = -1\<close>, \<open>yMax = 3\<close>.
\<close>

theorem getImageBoundingBox_quarter_turn:
  "(rotationDegrees im = Num 90 \<or> rotationDegrees im = Num 270 \<longrightarrow>
      getImageBoundingBox im =
        (let w = js_div (cropWidth im) (pixelsPerMetre im);
             h = js_div (cropHeight im) (pixelsPerMetre im)
         in \<lparr>xMin = js_sub (js_add (x im) (js_div w (Num 2))) (js_div h (Num 2)),
             xMax = js_add (js_add (x im) (js_div w (Num 2))) (js_div h (Num 2)),
             yMin = js_sub (js_add (y im) (js_div h (Num 2))) (js_div w (Num 2)),
             yMax = js_add (js_add (y im) (js_div h (Num 2))) (js_div w (Num 2))\<rparr>))
   \<and> (rotationDegrees im = Num 0 \<or> rotationDegrees im = Num 180 \<longrightarrow>
      getImageBoundingBox im =
        (let w = js_div (cropWidth im) (pixelsPerMetre im);
             h = js_div (cropHeight im) (pixelsPerMetre im)
         in \<lparr>xMin = x im, xMax = js_add (x im) w, yMin = y im, yMax = js_add (y im) h\<rparr>))
   \<and> (x im = Num 0 \<and> y im = Num 0 \<and> cropWidth im = Num cw \<and> cropHeight im = Num ch \<and>
       pixelsPerMetre im = Num p \<and> p \<noteq> 0 \<and> cw / p = 4 \<and> ch / p = 2 \<and>
       rotationDegrees im = Num 90 \<longrightarrow>
      getImageBoundingBox im = \<lparr>xMin = Num 1, xMax = Num 3, yMin = Num (- 1), yMax = Num 3\<rparr>)"
  by (auto simp: getImageBoundingBox_def Let_def)

text \<open>
  The image \<open>planAt 0 1\<close>, 400 x 200 pixels at 100 pixels per metre, turned by 90, by
  270 and by 180.
\<close>

theorem getImageBoundingBox_quarter_turn_witness:
  "getImageBoundingBox ((planAt 0 1)\<lparr>rotationDegrees := Num 90\<rparr>) =
     \<lparr>xMin = Num 1, xMax = Num 3, yMin = Num (- 1), yMax = Num 3\<rparr>
   \<and> getImageBoundingBox ((planAt 0 1)\<lparr>rotationDegrees := Num 270\<rparr>) =
     \<lparr>xMin = Num 1, xMax = Num 3, yMin = Num (- 1), yMax = Num 3\<rparr>
   \<and> getImageBoundingBox ((planAt 0 1)\<lparr>rotationDegrees := Num 180\<rparr>) =
     \<lparr>xMin = Num 0, xMax = Num 4, yMin = Num 0, yMax = Num 2\<rparr>"
  using
    getImageBoundingBox_quarter_turn [of "(planAt 0 1)\<lparr>rotationDegrees := Num 90\<rparr>" 400 200 100]
    getImageBoundingBox_quarter_turn [of "(planAt 0 1)\<lparr>rotationDegrees := Num 270\<rparr>" 400 200 100]
    getImageBoundingBox_quarter_turn [of "(planAt 0 1)\<lparr>rotationDegrees := Num 180\<rparr>" 400 200 100]
  by (simp add: planAt_def Let_def)

section \<open>Zoom\<close>

subsection \<open>Rounding\<close>

lemma rne_error: "\<bar>of_int (rne t) - t\<bar> \<le> 1 / 2"
  unfolding rne_def Let_def by (auto simp: abs_if) linarith+

lemma scanExponent_low: "- 1022 \<le> scanExponent n v"
  by (induction n) auto

lemma scanExponent_below:
  "scanExponent n v = - 1022 \<or> 2 powi scanExponent n v \<le> \<bar>v\<bar>"
  by (induction n) auto

lemma scanExponent_eq:
  "- 1022 \<le> e \<Longrightarrow> e \<le> int n - 1022 \<Longrightarrow> 2 powi e \<le> \<bar>v\<bar> \<Longrightarrow> \<bar>v\<bar> < 2 powi (e + 1) \<Longrightarrow>
   scanExponent n v = e"
proof (induction n)
  case 0
  then show ?case by simp
next
  case (Suc n)
  show ?case
  proof (cases "e = int n - 1021")
    case True
    with Suc.prems show ?thesis by simp
  next
    case False
    with Suc.prems have le: "e + 1 \<le> int n - 1021" by simp
    have "(2::real) powi (e + 1) \<le> 2 powi (int n - 1021)"
      using le by (intro power_int_increasing) simp_all
    with Suc.prems have "\<not> 2 powi (int n - 1021) \<le> \<bar>v\<bar>" by linarith
    moreover have "scanExponent n v = e"
      using Suc.prems le by (intro Suc.IH) simp_all
    ultimately show ?thesis by simp
  qed
qed

lemma binary64_at:
  assumes "- 1022 \<le> e" and "e \<le> 1023" and "2 powi e \<le> \<bar>v\<bar>" and "\<bar>v\<bar> < 2 powi (e + 1)"
  shows "binary64 v =
     (let q = 2 powi (e - 52);
          r = of_int (rne (v / q)) * q
      in if 2 ^ 1024 \<le> \<bar>r\<bar> then (if 0 < v then Infinity else NegInfinity) else Num r)"
proof -
  have "binexp v = e"
    unfolding binexp_def using assms by (intro scanExponent_eq) simp_all
  then show ?thesis
    by (simp add: binary64_def)
qed

lemma binary64_half_quantum:
  assumes "binary64 v = Num r"
  shows "\<bar>r - v\<bar> \<le> 2 powi (binexp v - 53)"
proof -
  define q :: real where "q = 2 powi (binexp v - 52)"
  have q: "0 < q" by (simp add: q_def)
  from assms have r: "r = of_int (rne (v / q)) * q"
    by (simp add: binary64_def Let_def q_def split: if_splits)
  have "r - v = (of_int (rne (v / q)) - v / q) * q"
    using q by (simp add: r field_simps)
  then have "\<bar>r - v\<bar> = \<bar>of_int (rne (v / q)) - v / q\<bar> * q"
    using q by (simp add: abs_mult)
  also have "\<dots> \<le> 1 / 2 * q"
    using rne_error [of "v / q"] q by (intro mult_right_mono) simp_all
  also have "\<dots> = 2 powi (binexp v - 53)"
    by (simp add: q_def power_int_diff)
  finally show ?thesis .
qed

lemma binary64_error:
  assumes "binary64 v = Num r"
  shows "\<bar>r - v\<bar> \<le> \<bar>v\<bar> / 2 ^ 53 + 1 / 2 ^ 1075"
proof -
  consider "binexp v = - 1022" | "2 powi binexp v \<le> \<bar>v\<bar>"
    using scanExponent_below [of 2045 v] by (auto simp: binexp_def)
  then show ?thesis
  proof cases
    case 1
    then have "\<bar>r - v\<bar> \<le> 2 powi (- 1075)"
      using binary64_half_quantum [OF assms] by simp
    also have "(2::real) powi (- 1075) = 1 / 2 ^ 1075"
      by (simp add: power_int_minus_divide)
    finally have "\<bar>r - v\<bar> \<le> 1 / 2 ^ 1075" .
    moreover have "0 \<le> \<bar>v\<bar> / 2 ^ 53" by simp
    ultimately show ?thesis by linarith
  next
    case 2
    have "\<bar>r - v\<bar> \<le> 2 powi (binexp v - 53)"
      by (rule binary64_half_quantum [OF assms])
    also have "\<dots> = 2 powi binexp v / 2 ^ 53"
      by (simp add: power_int_diff)
    also have "\<dots> \<le> \<bar>v\<bar> / 2 ^ 53"
      using 2 by (simp add: divide_right_mono)
    finally show ?thesis by simp
  qed
qed

lemma binary64_error_normal:
  assumes "binary64 v = Num r" and "1 / 2 ^ 1022 \<le> \<bar>v\<bar>"
  shows "\<bar>r - v\<bar> \<le> \<bar>v\<bar> / 2 ^ 53"
proof -
  have "2 powi binexp v \<le> \<bar>v\<bar>"
  proof (cases "binexp v = - 1022")
    case True
    have "(2::real) powi (- 1022) = 1 / 2 ^ 1022"
      by (simp add: power_int_minus_divide)
    with True assms(2) show ?thesis by simp
  next
    case False
    then show ?thesis
      using scanExponent_below [of 2045 v] by (auto simp: binexp_def)
  qed
  have "\<bar>r - v\<bar> \<le> 2 powi (binexp v - 53)"
    by (rule binary64_half_quantum [OF assms(1)])
  also have "\<dots> = 2 powi binexp v / 2 ^ 53"
    by (simp add: power_int_diff)
  also have "\<dots> \<le> \<bar>v\<bar> / 2 ^ 53"
    using \<open>2 powi binexp v \<le> \<bar>v\<bar>\<close> by (simp add: divide_right_mono)
  finally show ?thesis .
qed


subsection \<open>Finite results have finite operands\<close>

lemma rounded_Num: "rounded a = Num r \<Longrightarrow> \<exists>v. a = Num v \<and> binary64 v = Num r"
  by (cases a) simp_all

lemma js_add_Num: "js_add a b = Num v \<Longrightarrow> \<exists>s t. a = Num s \<and> b = Num t \<and> v = s + t"
  by (cases a; cases b) simp_all

lemma js_sub_Num: "js_sub a b = Num v \<Longrightarrow> \<exists>s t. a = Num s \<and> b = Num t \<and> v = s - t"
  by (cases a; cases b) simp_all

lemma js_div_Num: "js_div a (Num t) = Num v \<Longrightarrow> \<exists>s. a = Num s \<and> t \<noteq> 0 \<and> v = s / t"
  by (cases a) (simp_all split: if_splits)

lemma d_add_Num:
  "d_add a b = Num r \<Longrightarrow> \<exists>s t. a = Num s \<and> b = Num t \<and> binary64 (s + t) = Num r"
  unfolding d_add_def by (blast dest: rounded_Num js_add_Num)

lemma d_sub_Num:
  "d_sub a b = Num r \<Longrightarrow> \<exists>s t. a = Num s \<and> b = Num t \<and> binary64 (s - t) = Num r"
  unfolding d_sub_def by (blast dest: rounded_Num js_sub_Num)

lemma d_div_Num:
  "d_div a (Num t) = Num r \<Longrightarrow> \<exists>s. a = Num s \<and> t \<noteq> 0 \<and> binary64 (s / t) = Num r"
  unfolding d_div_def by (blast dest: rounded_Num js_div_Num)

lemma d_mul_Num: "d_mul (Num s) (Num t) = Num r \<Longrightarrow> binary64 (s * t) = Num r"
  by (simp add: d_mul_def)

subsection \<open>The error of the anchoring\<close>

text \<open>
  The eight roundings of one axis: \<open>a\<close> is the pointer in metres, \<open>w\<close> the world point,
  \<open>d\<close> its distance from the origin, \<open>q\<close> that distance divided by the factor, \<open>o'\<close>
  the new origin, \<open>p'\<close> the new zoom, \<open>a'\<close> the pointer in metres at the new zoom and
  \<open>w'\<close> the world point of the new camera. Each is off by at most the fraction
  \<open>2^-53\<close> of the exact result, or \<open>h\<close> for a result that underflows.
\<close>

lemma anchor_error:
  fixes a a' c d h m o' ob p p' q w w' :: real
  assumes m: "0 < m" and h: "0 \<le> h" and p: "p \<noteq> 0" and p': "p' \<noteq> 0"
    and r0: "\<bar>a - c / p\<bar> \<le> \<bar>c / p\<bar> / 2 ^ 53 + h"
    and r1: "\<bar>w - (a + ob)\<bar> \<le> \<bar>a + ob\<bar> / 2 ^ 53 + h"
    and r2: "\<bar>d - (w - ob)\<bar> \<le> \<bar>w - ob\<bar> / 2 ^ 53 + h"
    and r3: "\<bar>q - d / m\<bar> \<le> \<bar>d / m\<bar> / 2 ^ 53 + h"
    and r4: "\<bar>o' - (w - q)\<bar> \<le> \<bar>w - q\<bar> / 2 ^ 53 + h"
    and r5: "\<bar>p' - p * m\<bar> \<le> \<bar>p * m\<bar> / 2 ^ 53"
    and r6: "\<bar>a' - c / p'\<bar> \<le> \<bar>c / p'\<bar> / 2 ^ 53 + h"
    and r7: "\<bar>w' - (a' + o')\<bar> \<le> \<bar>a' + o'\<bar> / 2 ^ 53 + h"
  shows "\<bar>w' - w\<bar> \<le> (\<bar>c / p\<bar> + \<bar>ob\<bar>) * (1 + 1 / m) / 2 ^ 49 + 8 * h * (1 + 1 / m)"
proof -
  define cp where "cp = c / p"
  define dm where "dm = d / m"
  define am where "am = a / m"
  define cm where "cm = c / p / m"
  define r where "r = c / p'"
  define S where "S = \<bar>cp\<bar> + \<bar>ob\<bar>"
  define Z where "Z = S / m"
  define H where "H = h / m"
  have K: "(2::real) ^ 53 = 9007199254740992"
    by simp
  note rs = r0 [folded cp_def, unfolded K] r1 [unfolded K] r2 [unfolded K]
    r3 [folded dm_def, unfolded K] r4 [unfolded K] r6 [folded r_def, unfolded K] r7 [unfolded K]
  have pos: "0 \<le> S" "0 \<le> Z" "0 \<le> H" "\<bar>cp\<bar> \<le> S"
    using m h by (simp_all add: S_def Z_def H_def)
  have Az: "\<bar>cp\<bar> / m \<le> Z"
    using pos m by (simp add: Z_def divide_right_mono)
  have ba: "\<bar>a\<bar> \<le> 1001 / 1000 * \<bar>cp\<bar> + h"
    using rs(1) by argo
  have bao: "\<bar>a + ob\<bar> \<le> 1001 / 1000 * S + h"
    using ba unfolding S_def by argo
  have bw: "\<bar>w\<bar> \<le> 101 / 100 * S + 3 * h"
    using rs(2) bao pos h by argo
  have ta: "\<bar>(w - ob) - a\<bar> \<le> \<bar>a + ob\<bar> / 9007199254740992 + h"
    using rs(2) by (simp add: algebra_simps)
  have bt: "\<bar>w - ob\<bar> \<le> 101 / 100 * S + 3 * h"
    using ta ba bao pos h by argo
  have da: "\<bar>d - a\<bar> \<le> 202 / 100 * S / 9007199254740992 + 3 * h"
    using rs(3) ta bt bao pos h by argo
  have bd: "\<bar>d\<bar> \<le> 101 / 100 * S + 4 * h"
    using da ba pos h by argo
  have dam: "\<bar>dm - am\<bar> \<le> 202 / 100 * Z / 9007199254740992 + 3 * H"
  proof -
    have "dm - am = (d - a) / m"
      by (simp add: dm_def am_def diff_divide_distrib)
    then have "\<bar>dm - am\<bar> = \<bar>d - a\<bar> / m"
      using m by simp
    also have "\<dots> \<le> (202 / 100 * S / 9007199254740992 + 3 * h) / m"
      using da m by (simp add: divide_right_mono)
    also have "\<dots> = 202 / 100 * Z / 9007199254740992 + 3 * H"
      by (simp add: Z_def H_def add_divide_distrib)
    finally show ?thesis .
  qed
  have bdm: "\<bar>dm\<bar> \<le> 101 / 100 * Z + 4 * H"
  proof -
    have "\<bar>dm\<bar> = \<bar>d\<bar> / m"
      using m by (simp add: dm_def)
    also have "\<dots> \<le> (101 / 100 * S + 4 * h) / m"
      using bd m by (simp add: divide_right_mono)
    also have "\<dots> = 101 / 100 * Z + 4 * H"
      by (simp add: Z_def H_def add_divide_distrib)
    finally show ?thesis .
  qed
  have acm: "\<bar>am - cm\<bar> \<le> Z / 9007199254740992 + H"
  proof -
    have "am - cm = (a - cp) / m"
      by (simp add: am_def cm_def cp_def diff_divide_distrib)
    then have "\<bar>am - cm\<bar> = \<bar>a - cp\<bar> / m"
      using m by simp
    also have "\<dots> \<le> (\<bar>cp\<bar> / 9007199254740992 + h) / m"
      using rs(1) m by (simp add: divide_right_mono)
    also have "\<dots> = \<bar>cp\<bar> / m / 9007199254740992 + H"
      by (simp add: H_def add_divide_distrib)
    finally show ?thesis using Az by argo
  qed
  have rel: "cm - r = r * ((p' - p * m) / (p * m))"
    using p p' m by (simp add: cm_def r_def field_simps)
  have delta: "\<bar>(p' - p * m) / (p * m)\<bar> \<le> 1 / 9007199254740992"
  proof -
    have "0 < \<bar>p * m\<bar>" using p m by simp
    then show ?thesis
      using r5 [unfolded K] by (simp add: field_simps)
  qed
  have cr: "\<bar>cm - r\<bar> \<le> \<bar>r\<bar> / 9007199254740992"
  proof -
    have "\<bar>cm - r\<bar> = \<bar>r\<bar> * \<bar>(p' - p * m) / (p * m)\<bar>"
      by (simp add: rel abs_mult)
    also have "\<dots> \<le> \<bar>r\<bar> * (1 / 9007199254740992)"
      using delta by (intro mult_left_mono) simp_all
    finally show ?thesis by simp
  qed
  have cmA: "\<bar>cm\<bar> = \<bar>cp\<bar> / m"
    using m by (simp add: cm_def cp_def abs_mult)
  have br: "\<bar>r\<bar> \<le> 1001 / 1000 * Z"
    using cr cmA Az pos by argo
  have bq: "\<bar>q\<bar> \<le> 102 / 100 * Z + 5 * H + h"
    using rs(4) bdm pos h by argo
  have bwq: "\<bar>w - q\<bar> \<le> 101 / 100 * S + 102 / 100 * Z + 5 * H + 4 * h"
    using bw bq by argo
  have ba': "\<bar>a'\<bar> \<le> 101 / 100 * Z + h"
    using rs(6) br pos h by argo
  have bo': "\<bar>o'\<bar> \<le> 102 / 100 * S + 103 / 100 * Z + 6 * H + 6 * h"
    using rs(5) bwq pos h by argo
  have e7: "\<bar>w' - (a' + o')\<bar> \<le>
      (102 / 100 * S + 204 / 100 * Z + 6 * H + 7 * h) / 9007199254740992 + h"
    using rs(7) ba' bo' by argo
  have e6: "\<bar>a' - r\<bar> \<le> 1001 / 1000 * Z / 9007199254740992 + h"
    using rs(6) br by argo
  have e5: "\<bar>r - cm\<bar> \<le> 1001 / 1000 * Z / 9007199254740992"
    using cr br by argo
  have e3: "\<bar>dm - q\<bar> \<le> (101 / 100 * Z + 4 * H) / 9007199254740992 + h"
    using rs(4) bdm by argo
  have e4: "\<bar>o' - (w - q)\<bar> \<le>
      (101 / 100 * S + 102 / 100 * Z + 5 * H + 4 * h) / 9007199254740992 + h"
    using rs(5) bwq by argo
  have "\<bar>w' - w\<bar> \<le> \<bar>w' - (a' + o')\<bar> + \<bar>a' - r\<bar> + \<bar>r - cm\<bar> + \<bar>am - cm\<bar>
      + \<bar>dm - am\<bar> + \<bar>dm - q\<bar> + \<bar>o' - (w - q)\<bar>"
    by argo
  then have "\<bar>w' - w\<bar> \<le> (S + Z) / 562949953421312 + 8 * (h + H)"
    using e7 e6 e5 acm dam e3 e4 pos h by argo
  also have "(S + Z) / 562949953421312 + 8 * (h + H) =
      (\<bar>c / p\<bar> + \<bar>ob\<bar>) * (1 + 1 / m) / 2 ^ 49 + 8 * h * (1 + 1 / m)"
    by (simp add: S_def Z_def H_def cp_def algebra_simps add_divide_distrib)
  finally show ?thesis .
qed


lemma anchor_axis:
  assumes m: "0 < m" and normal: "1 / 2 ^ 1022 \<le> \<bar>p * m\<bar>"
    and zoom: "d_mul (Num p) (Num m) = Num p'"
    and after: "d_add (d_div (Num c) (Num p'))
        (d_sub (d_add (d_div (Num c) (Num p)) (Num ob))
           (d_div (d_sub (d_add (d_div (Num c) (Num p)) (Num ob)) (Num ob)) (Num m))) = Num w'"
  shows "\<exists>w. d_add (d_div (Num c) (Num p)) (Num ob) = Num w
           \<and> \<bar>w' - w\<bar> \<le> (\<bar>c / p\<bar> + \<bar>ob\<bar>) * (1 + 1 / m) / 2 ^ 49 + (1 + 1 / m) / 2 ^ 1072"
proof -
  from d_add_Num [OF after] obtain a' o' where
    a': "d_div (Num c) (Num p') = Num a'" and
    o': "d_sub (d_add (d_div (Num c) (Num p)) (Num ob))
           (d_div (d_sub (d_add (d_div (Num c) (Num p)) (Num ob)) (Num ob)) (Num m)) = Num o'" and
    r7: "binary64 (a' + o') = Num w'"
    by blast
  from d_sub_Num [OF o'] obtain w q where
    w: "d_add (d_div (Num c) (Num p)) (Num ob) = Num w" and
    q: "d_div (d_sub (d_add (d_div (Num c) (Num p)) (Num ob)) (Num ob)) (Num m) = Num q" and
    r4: "binary64 (w - q) = Num o'"
    by blast
  from d_div_Num [OF q] obtain d where
    d: "d_sub (d_add (d_div (Num c) (Num p)) (Num ob)) (Num ob) = Num d" and
    r3: "binary64 (d / m) = Num q"
    by blast
  from d_sub_Num [OF d] w have r2: "binary64 (w - ob) = Num d"
    by auto
  from d_add_Num [OF w] obtain a where
    a: "d_div (Num c) (Num p) = Num a" and r1: "binary64 (a + ob) = Num w"
    by auto
  from d_div_Num [OF a] have p: "p \<noteq> 0" and r0: "binary64 (c / p) = Num a"
    by auto
  from d_div_Num [OF a'] have p': "p' \<noteq> 0" and r6: "binary64 (c / p') = Num a'"
    by auto
  from d_mul_Num [OF zoom] have r5: "binary64 (p * m) = Num p'" .
  have h0: "(0::real) \<le> 1 / 2 ^ 1075"
    by simp
  have "\<bar>w' - w\<bar> \<le> (\<bar>c / p\<bar> + \<bar>ob\<bar>) * (1 + 1 / m) / 2 ^ 49
      + 8 * (1 / 2 ^ 1075) * (1 + 1 / m)"
    by (rule anchor_error [OF m h0 p p' binary64_error [OF r0] binary64_error [OF r1]
          binary64_error [OF r2] binary64_error [OF r3] binary64_error [OF r4]
          binary64_error_normal [OF r5 normal] binary64_error [OF r6] binary64_error [OF r7]])
  also have "8 * (1 / 2 ^ 1075) * (1 + 1 / m) = (1 + 1 / m) / (2::real) ^ 1072"
    by simp
  finally show ?thesis
    using w by blast
qed


subsection \<open>The wheel on the example scene\<close>

lemma literal_1_3: "binary64 (13 / 10) = Num (5854679515581645 / 4503599627370496)"
  by (simp add: binary64_at [of 0] rne_def)

lemma literal_0_01: "binary64 (- (1 / 100)) = Num (- (5764607523034235 / 576460752303423488))"
  by (simp add: binary64_at [of "- 7"] rne_def power_int_minus_divide)

lemma wheel_exponent:
  "d_mul (Num (- 100)) (Num (- (5764607523034235 / 576460752303423488))) = Num 1"
  by (simp add: d_mul_def binary64_at [of 0] rne_def)

lemma wheel_multiplier:
  "roundedPow (Num (5854679515581645 / 4503599627370496)) (Num 1) =
     Num (5854679515581645 / 4503599627370496)"
  by (simp add: roundedPow_def binary64_at [of 0] rne_def)

lemma wheel_pointer: "d_div (Num 1) (Num 50) = Num (5764607523034235 / 288230376151711744)"
  by (simp add: d_div_def binary64_at [of "- 6"] rne_def power_int_minus_divide)

lemma wheel_world:
  "d_add (Num (5764607523034235 / 288230376151711744)) (Num 0) =
     Num (5764607523034235 / 288230376151711744)"
  by (simp add: d_add_def binary64_at [of "- 6"] rne_def power_int_minus_divide)

lemma wheel_distance:
  "d_sub (Num (5764607523034235 / 288230376151711744)) (Num 0) =
     Num (5764607523034235 / 288230376151711744)"
  by (simp add: d_sub_def binary64_at [of "- 6"] rne_def power_int_minus_divide)

lemma wheel_quotient:
  "d_div (Num (5764607523034235 / 288230376151711744))
         (Num (5854679515581645 / 4503599627370496)) =
     Num (8868626958514207 / 576460752303423488)"
  by (simp add: d_div_def binary64_at [of "- 7"] rne_def power_int_minus_divide)

lemma wheel_origin:
  "d_sub (Num (5764607523034235 / 288230376151711744))
         (Num (8868626958514207 / 576460752303423488)) =
     Num (2660588087554263 / 576460752303423488)"
  by (simp add: d_sub_def binary64_at [of "- 8"] rne_def power_int_minus_divide)

lemma wheel_zoom: "d_mul (Num 50) (Num (5854679515581645 / 4503599627370496)) = Num 65"
  by (simp add: d_mul_def binary64_at [of 6] rne_def)

lemma wheel_pointer_after: "d_div (Num 1) (Num 65) = Num (277144592453569 / 18014398509481984)"
  by (simp add: d_div_def binary64_at [of "- 7"] rne_def power_int_minus_divide)

lemma wheel_world_after:
  "d_add (Num (277144592453569 / 18014398509481984))
         (Num (2660588087554263 / 576460752303423488)) =
     Num (1441151880758559 / 72057594037927936)"
  by (simp add: d_add_def binary64_at [of "- 6"] rne_def power_int_minus_divide)

lemmas wheel_steps =
  literal_1_3 literal_0_01 wheel_exponent wheel_multiplier wheel_pointer wheel_world
  wheel_distance wheel_quotient wheel_origin wheel_zoom wheel_pointer_after wheel_world_after

lemma wheelScene_eval:
  "mousePos wheelScene = Some \<lparr>x = Num 1, y = Num 1\<rparr>
   \<and> canvasPixelsPerMeter wheelScene = Num 50
   \<and> renderOrigin wheelScene = \<lparr>x = Num 0, y = Num 0\<rparr>"
  by (simp add: wheelScene_def handleMouseMove_composer_def mounted_def initialComposer_def
      topLeft_def pointer_def)

lemma wheelScene_after:
  "canvasPixelsPerMeter (handleMouseWheel roundedPow (wheel (- 100)) wheelScene) = Num 65
   \<and> renderOrigin (handleMouseWheel roundedPow (wheel (- 100)) wheelScene) =
       \<lparr>x = Num (2660588087554263 / 576460752303423488),
        y = Num (2660588087554263 / 576460752303423488)\<rparr>"
  by (simp add: handleMouseWheel_def wheelScene_eval wheel_def Let_def wheel_steps)

text \<open>
  Claim C5: a wheel event handled while the pointer position is known updates the
  camera with the factor \<open>m = 1.3^(-deltaY/100)\<close>, \<open>pixelsPerMetre' = pixelsPerMetre * m\<close>
  and \<open>origin' = pointerWorld - (pointerWorld - origin) / m\<close>, and so leaves the world
  point under the pointer, \<open>pointer / pixelsPerMetre + origin\<close>, exactly unchanged. In
  double precision it does not: with the camera at 50 pixels per metre and origin 0,
  the pointer at \<open>x = 1\<close> and \<open>deltaY = -100\<close>, the world point is the double \<open>0.02\<close>
  before the event and the next double, \<open>0.020000000000000004\<close>, after it.
\<close>

theorem handleMouseWheel_moves_world_point:
  "mousePos wheelScene = Some \<lparr>x = Num 1, y = Num 1\<rparr>
   \<and> d_add (d_div (Num 1) (canvasPixelsPerMeter wheelScene)) (x (renderOrigin wheelScene))
       = Num (5764607523034235 / 288230376151711744)
   \<and> d_add (d_div (Num 1)
              (canvasPixelsPerMeter (handleMouseWheel roundedPow (wheel (- 100)) wheelScene)))
            (x (renderOrigin (handleMouseWheel roundedPow (wheel (- 100)) wheelScene)))
       = Num (5764607523034236 / 288230376151711744)
   \<and> (5764607523034235 / 288230376151711744 :: real) \<noteq> 5764607523034236 / 288230376151711744"
  by (simp add: wheelScene_eval wheelScene_after wheel_steps)

text \<open>
  Claim C5 as amended: the camera is updated with the factor \<open>m\<close> that \<open>Math.pow\<close>
  returns, \<open>pixelsPerMetre' = pixelsPerMetre * m\<close> and
  \<open>origin' = pointerWorld - (pointerWorld - origin) / m\<close>, each operation rounded to
  double precision; the world point under the pointer is unchanged up to rounding.
  When \<open>m\<close> is positive, the new zoom and the new world point are finite and the new
  zoom does not underflow, each coordinate of the world point moves by at most
  \<open>2^-49 * (|pointer / pixelsPerMetre| + |origin|) * (1 + 1/m) + 2^-1072 * (1 + 1/m)\<close>.
\<close>

theorem handleMouseWheel_anchor_rounded:
  assumes pos: "mousePos s = Some \<lparr>x = Num px, y = Num py\<rparr>"
    and zoom: "canvasPixelsPerMeter s = Num p"
    and origin: "renderOrigin s = \<lparr>x = Num ox, y = Num oy\<rparr>"
    and mult: "mathPow (binary64 1.3) (d_mul (deltaY e) (binary64 (- 0.01))) = Num m"
    and m: "0 < m"
    and normal: "1 / 2 ^ 1022 \<le> \<bar>p * m\<bar>"
    and zoom': "canvasPixelsPerMeter (handleMouseWheel mathPow e s) = Num p'"
    and after_x: "d_add (d_div (Num px) (canvasPixelsPerMeter (handleMouseWheel mathPow e s)))
                        (x (renderOrigin (handleMouseWheel mathPow e s))) = Num wx'"
    and after_y: "d_add (d_div (Num py) (canvasPixelsPerMeter (handleMouseWheel mathPow e s)))
                        (y (renderOrigin (handleMouseWheel mathPow e s))) = Num wy'"
  shows "canvasPixelsPerMeter (handleMouseWheel mathPow e s) = d_mul (Num p) (Num m)
       \<and> renderOrigin (handleMouseWheel mathPow e s) =
           \<lparr>x = d_sub (d_add (d_div (Num px) (Num p)) (Num ox))
                  (d_div (d_sub (d_add (d_div (Num px) (Num p)) (Num ox)) (Num ox)) (Num m)),
            y = d_sub (d_add (d_div (Num py) (Num p)) (Num oy))
                  (d_div (d_sub (d_add (d_div (Num py) (Num p)) (Num oy)) (Num oy)) (Num m))\<rparr>
       \<and> (\<exists>wx wy.
             d_add (d_div (Num px) (Num p)) (Num ox) = Num wx
           \<and> d_add (d_div (Num py) (Num p)) (Num oy) = Num wy
           \<and> \<bar>wx' - wx\<bar> \<le> (\<bar>px / p\<bar> + \<bar>ox\<bar>) * (1 + 1 / m) / 2 ^ 49 + (1 + 1 / m) / 2 ^ 1072
           \<and> \<bar>wy' - wy\<bar> \<le> (\<bar>py / p\<bar> + \<bar>oy\<bar>) * (1 + 1 / m) / 2 ^ 49 + (1 + 1 / m) / 2 ^ 1072)"
proof -
  have new_zoom: "canvasPixelsPerMeter (handleMouseWheel mathPow e s) = d_mul (Num p) (Num m)"
    using pos zoom mult by (simp add: handleMouseWheel_def Let_def)
  have new_origin: "renderOrigin (handleMouseWheel mathPow e s) =
           \<lparr>x = d_sub (d_add (d_div (Num px) (Num p)) (Num ox))
                  (d_div (d_sub (d_add (d_div (Num px) (Num p)) (Num ox)) (Num ox)) (Num m)),
            y = d_sub (d_add (d_div (Num py) (Num p)) (Num oy))
                  (d_div (d_sub (d_add (d_div (Num py) (Num p)) (Num oy)) (Num oy)) (Num m))\<rparr>"
    using pos zoom origin mult by (simp add: handleMouseWheel_def Let_def)
  have p': "d_mul (Num p) (Num m) = Num p'"
    using zoom' new_zoom by simp
  have ax: "d_add (d_div (Num px) (Num p'))
        (d_sub (d_add (d_div (Num px) (Num p)) (Num ox))
           (d_div (d_sub (d_add (d_div (Num px) (Num p)) (Num ox)) (Num ox)) (Num m))) = Num wx'"
    using after_x by (simp add: zoom' new_origin)
  have ay: "d_add (d_div (Num py) (Num p'))
        (d_sub (d_add (d_div (Num py) (Num p)) (Num oy))
           (d_div (d_sub (d_add (d_div (Num py) (Num p)) (Num oy)) (Num oy)) (Num m))) = Num wy'"
    using after_y by (simp add: zoom' new_origin)
  from anchor_axis [OF m normal p' ax] anchor_axis [OF m normal p' ay] new_zoom new_origin
  show ?thesis
    by blast
qed

text \<open>
  On \<open>wheelScene\<close> with \<open>deltaY = -100\<close> the factor is the double \<open>1.3\<close>, the new zoom
  is 65, and the world point moves by \<open>2^-58\<close>, within the bound.
\<close>

theorem handleMouseWheel_anchor_rounded_witness:
  "mousePos wheelScene = Some \<lparr>x = Num 1, y = Num 1\<rparr>
   \<and> canvasPixelsPerMeter (handleMouseWheel roundedPow (wheel (- 100)) wheelScene) = Num 65
   \<and> (\<exists>wx wy.
         d_add (d_div (Num 1) (Num 50)) (Num 0) = Num wx
       \<and> d_add (d_div (Num 1) (Num 50)) (Num 0) = Num wy
       \<and> \<bar>5764607523034236 / 288230376151711744 - wx\<bar>
           \<le> (\<bar>1 / 50\<bar> + \<bar>0\<bar>) * (1 + 1 / (5854679515581645 / 4503599627370496)) / 2 ^ 49
             + (1 + 1 / (5854679515581645 / 4503599627370496)) / 2 ^ 1072
       \<and> \<bar>5764607523034236 / 288230376151711744 - wy\<bar>
           \<le> (\<bar>1 / 50\<bar> + \<bar>0\<bar>) * (1 + 1 / (5854679515581645 / 4503599627370496)) / 2 ^ 49
             + (1 + 1 / (5854679515581645 / 4503599627370496)) / 2 ^ 1072)"
proof -
  have pos: "mousePos wheelScene = Some \<lparr>x = Num 1, y = Num 1\<rparr>"
    and zoom: "canvasPixelsPerMeter wheelScene = Num 50"
    and origin: "renderOrigin wheelScene = \<lparr>x = Num 0, y = Num 0\<rparr>"
    by (simp_all add: wheelScene_eval)
  have mult: "roundedPow (binary64 1.3) (d_mul (deltaY (wheel (- 100))) (binary64 (- 0.01))) =
      Num (5854679515581645 / 4503599627370496)"
    by (simp add: wheel_def wheel_steps)
  have m: "(0::real) < 5854679515581645 / 4503599627370496"
    by simp
  have normal: "1 / 2 ^ 1022 \<le> \<bar>50 * (5854679515581645 / 4503599627370496 :: real)\<bar>"
    by simp
  have zoom': "canvasPixelsPerMeter (handleMouseWheel roundedPow (wheel (- 100)) wheelScene) =
      Num 65"
    by (simp add: wheelScene_after)
  have after: "d_add (d_div (Num 1)
              (canvasPixelsPerMeter (handleMouseWheel roundedPow (wheel (- 100)) wheelScene)))
            (x (renderOrigin (handleMouseWheel roundedPow (wheel (- 100)) wheelScene)))
       = Num (5764607523034236 / 288230376151711744)"
    and after_y: "d_add (d_div (Num 1)
              (canvasPixelsPerMeter (handleMouseWheel roundedPow (wheel (- 100)) wheelScene)))
            (y (renderOrigin (handleMouseWheel roundedPow (wheel (- 100)) wheelScene)))
       = Num (5764607523034236 / 288230376151711744)"
    by (simp_all add: wheelScene_after wheel_steps)
  from handleMouseWheel_anchor_rounded [OF pos zoom origin mult m normal zoom' after after_y]
    pos zoom'
  show ?thesis
    by blast
qed

section \<open>Selection\<close>

text \<open>The camera and the images of \<open>sceneCamera\<close>, and the bounding box of \<open>planAt\<close>.\<close>

lemma sceneFive_camera:
  "canvasPixelsPerMeter sceneFive = Num 50 \<and> renderOrigin sceneFive = \<lparr>x = Num 0, y = Num 0\<rparr>
   \<and> imageDragState sceneFive = None \<and> canvasDragState sceneFive = None"
  by (simp add: sceneFive_def initialComposer_def mounted_def addImageCallback_def
      saveState_def Let_def)

lemma sceneCamera_eval:
  "canvas sceneCamera = Some \<lparr>left' = Num 8, top' = Num 60\<rparr>
   \<and> canvasPixelsPerMeter sceneCamera = Num 65
   \<and> renderOrigin sceneCamera = \<lparr>x = Num 2, y = Num 1\<rparr>
   \<and> images sceneCamera = [4, 3, 2, 1, 0]
   \<and> heap sceneCamera = heap sceneFive"
  by (simp add: sceneCamera_def handleMouseUp_composer_def handleMouseMove_composer_def
      handleMouseDown_composer_def saveState_def sceneFive_camera sceneFive_images Let_def)

lemma planAt_box:
  "getImageBoundingBox (planAt a n) =
     \<lparr>xMin = Num a, xMax = Num (a + 4), yMin = Num 0, yMax = Num 2\<rparr>"
  by (simp add: getImageBoundingBox_def planAt_def Let_def)

text \<open>
  Claim C6: on a press of the primary button the composer takes the pointer to world
  metres by the camera and scans the images from the front; the first whose bounding
  box holds the point is the hit. With no such image the selection is cleared (and the
  sequence stays). A hit image is selected and moved to index 0, the others keeping
  their order: the new sequence is the hit image followed by the old one without its
  index. When the third of five images is the hit, the sequence \<open>[a, b, c, d, f]\<close>
  becomes \<open>[c, a, b, d, f]\<close>. The first two conjuncts are the conversion, in the
  operations of the source and, for finite numbers and a zoom other than zero, as
  \<open>((clientX - left) / pixelsPerMetre + origin.x, (clientY - top) / pixelsPerMetre + origin.y)\<close>;
  the next two are the test of the bounding box, in the comparisons of the source and
  for finite numbers.
\<close>

theorem handleMouseDown_composer_selects:
  assumes "canvas s = Some rect" and "button e = Num 0"
  shows "mouseMetres rect e s =
           (js_add (js_div (js_sub (clientX e) (left' rect)) (canvasPixelsPerMeter s))
                   (x (renderOrigin s)),
            js_add (js_div (js_sub (clientY e) (top' rect)) (canvasPixelsPerMeter s))
                   (y (renderOrigin s)))
       \<and> (\<forall>cx cy l t p ox oy.
              clientX e = Num cx \<and> clientY e = Num cy \<and> rect = \<lparr>left' = Num l, top' = Num t\<rparr>
              \<and> canvasPixelsPerMeter s = Num p \<and> p \<noteq> 0
              \<and> renderOrigin s = \<lparr>x = Num ox, y = Num oy\<rparr> \<longrightarrow>
            mouseMetres rect e s = (Num ((cx - l) / p + ox), Num ((cy - t) / p + oy)))
       \<and> (\<forall>r. boxHolds (mouseMetres rect e s) (heap s r) \<longleftrightarrow>
              js_le (xMin (getImageBoundingBox (heap s r))) (fst (mouseMetres rect e s))
            \<and> js_ge (xMax (getImageBoundingBox (heap s r))) (fst (mouseMetres rect e s))
            \<and> js_le (yMin (getImageBoundingBox (heap s r))) (snd (mouseMetres rect e s))
            \<and> js_ge (yMax (getImageBoundingBox (heap s r))) (snd (mouseMetres rect e s)))
       \<and> (\<forall>r mx my x0 x1 y0 y1.
              mouseMetres rect e s = (Num mx, Num my)
              \<and> getImageBoundingBox (heap s r) =
                  \<lparr>xMin = Num x0, xMax = Num x1, yMin = Num y0, yMax = Num y1\<rparr> \<longrightarrow>
            (boxHolds (mouseMetres rect e s) (heap s r) \<longleftrightarrow>
               x0 \<le> mx \<and> mx \<le> x1 \<and> y0 \<le> my \<and> my \<le> y1))
       \<and> ((\<forall>r \<in> set (images s). \<not> boxHolds (mouseMetres rect e s) (heap s r)) \<longrightarrow>
            selectedImage (handleMouseDown_composer e s) = None
            \<and> images (handleMouseDown_composer e s) = images s)
       \<and> (\<forall>i. i < length (images s)
              \<and> boxHolds (mouseMetres rect e s) (heap s (images s ! i))
              \<and> (\<forall>j<i. \<not> boxHolds (mouseMetres rect e s) (heap s (images s ! j))) \<longrightarrow>
            images (handleMouseDown_composer e s) =
              images s ! i # take i (images s) @ drop (Suc i) (images s)
            \<and> selectedImage (handleMouseDown_composer e s) = Some (images s ! i))
       \<and> (\<forall>a b c d f. images s = [a, b, c, d, f]
              \<and> \<not> boxHolds (mouseMetres rect e s) (heap s a)
              \<and> \<not> boxHolds (mouseMetres rect e s) (heap s b)
              \<and> boxHolds (mouseMetres rect e s) (heap s c) \<longrightarrow>
            images (handleMouseDown_composer e s) = [c, a, b, d, f]
            \<and> selectedImage (handleMouseDown_composer e s) = Some c)"
proof -
  let ?hit = "\<lambda>r. boxHolds (mouseMetres rect e s) (heap s r)"
  have metres: "mouseMetres rect e s =
           (js_add (js_div (js_sub (clientX e) (left' rect)) (canvasPixelsPerMeter s))
                   (x (renderOrigin s)),
            js_add (js_div (js_sub (clientY e) (top' rect)) (canvasPixelsPerMeter s))
                   (y (renderOrigin s)))"
    by (simp add: mouseMetres_def)
  have metres_finite:
    "mouseMetres rect e s = (Num ((cx - l) / p + ox), Num ((cy - t) / p + oy))"
    if "clientX e = Num cx" and "clientY e = Num cy"
      and "rect = \<lparr>left' = Num l, top' = Num t\<rparr>"
      and "canvasPixelsPerMeter s = Num p" and "p \<noteq> 0"
      and "renderOrigin s = \<lparr>x = Num ox, y = Num oy\<rparr>" for cx cy l t p ox oy
    using that by (simp add: mouseMetres_def)
  have holds: "boxHolds (mouseMetres rect e s) (heap s r) \<longleftrightarrow>
              js_le (xMin (getImageBoundingBox (heap s r))) (fst (mouseMetres rect e s))
            \<and> js_ge (xMax (getImageBoundingBox (heap s r))) (fst (mouseMetres rect e s))
            \<and> js_le (yMin (getImageBoundingBox (heap s r))) (snd (mouseMetres rect e s))
            \<and> js_ge (yMax (getImageBoundingBox (heap s r))) (snd (mouseMetres rect e s))" for r
    by (simp add: boxHolds_def Let_def)
  have holds_finite: "boxHolds (mouseMetres rect e s) (heap s r) \<longleftrightarrow>
               x0 \<le> mx \<and> mx \<le> x1 \<and> y0 \<le> my \<and> my \<le> y1"
    if "mouseMetres rect e s = (Num mx, Num my)"
      and "getImageBoundingBox (heap s r) =
                  \<lparr>xMin = Num x0, xMax = Num x1, yMin = Num y0, yMax = Num y1\<rparr>"
    for r mx my x0 x1 y0 y1
    using that by (auto simp: boxHolds_def Let_def)
  have miss: "selectedImage (handleMouseDown_composer e s) = None
      \<and> images (handleMouseDown_composer e s) = images s"
    if "\<forall>r \<in> set (images s). \<not> ?hit r"
  proof -
    from that have "findIndex ?hit (images s) = None"
      by (simp add: findIndex_None_iff)
    with assms show ?thesis
      by (simp add: handleMouseDown_composer_def)
  qed
  have first: "images (handleMouseDown_composer e s) =
              images s ! i # take i (images s) @ drop (Suc i) (images s)
            \<and> selectedImage (handleMouseDown_composer e s) = Some (images s ! i)"
    if "i < length (images s)" and "?hit (images s ! i)"
      and "\<forall>j<i. \<not> ?hit (images s ! j)" for i
  proof -
    from that have idx: "findIndex ?hit (images s) = Some i"
      by (simp add: findIndex_Some_iff)
    show ?thesis
    proof (cases i)
      case 0
      with that(1) have "images s = images s ! 0 # drop (Suc 0) (images s)"
        by (cases "images s") simp_all
      with assms idx 0 show ?thesis
        by (simp add: handleMouseDown_composer_def Let_def)
    next
      case (Suc k)
      with assms idx show ?thesis
        by (simp add: handleMouseDown_composer_def Let_def saveState_def splice1_def)
    qed
  qed
  have third: "images (handleMouseDown_composer e s) = [c, a, b, d, f]
            \<and> selectedImage (handleMouseDown_composer e s) = Some c"
    if "images s = [a, b, c, d, f]" and "\<not> ?hit a" and "\<not> ?hit b" and "?hit c"
    for a b c d f
  proof -
    have "\<forall>j<2. \<not> ?hit (images s ! j)"
      using that by (auto simp: less_Suc_eq numeral_2_eq_2)
    with that first [of 2] show ?thesis
      by (simp add: numeral_2_eq_2)
  qed
  show ?thesis
    apply (intro conjI allI impI)
    subgoal by (rule metres)
    subgoal by (rule metres_finite) blast+
    subgoal by (rule holds)
    subgoal by (rule holds_finite) blast+
    subgoal using miss by blast
    subgoal using miss by blast
    subgoal using first by blast
    subgoal using first by blast
    subgoal using third by blast
    subgoal using third by blast
    done
qed

text \<open>
  On \<open>sceneCamera\<close>, canvas at \<open>(8, 60)\<close>, zoom 65 and origin \<open>(2, 1)\<close>, the press at
  \<open>(1243, 60)\<close> is over the world point \<open>((1243 - 8) / 65 + 2, (60 - 60) / 65 + 1) =
  (21, 1)\<close>, which only the third image, at \<open>20 \<le> x \<le> 24\<close>, holds: it comes to the
  front.
\<close>

theorem handleMouseDown_composer_selects_witness:
  "canvas sceneCamera = Some \<lparr>left' = Num 8, top' = Num 60\<rparr>
   \<and> canvasPixelsPerMeter sceneCamera = Num 65
   \<and> renderOrigin sceneCamera = \<lparr>x = Num 2, y = Num 1\<rparr>
   \<and> images sceneCamera = [4, 3, 2, 1, 0]
   \<and> mouseMetres \<lparr>left' = Num 8, top' = Num 60\<rparr> (pointer 1243 60) sceneCamera = (Num 21, Num 1)
   \<and> images (handleMouseDown_composer (pointer 1243 60) sceneCamera) = [2, 4, 3, 1, 0]
   \<and> selectedImage (handleMouseDown_composer (pointer 1243 60) sceneCamera) = Some 2"
proof -
  let ?rect = "\<lparr>left' = Num 8, top' = Num 60\<rparr>"
  have c: "canvas sceneCamera = Some ?rect"
    by (simp add: sceneCamera_eval)
  have b: "button (pointer 1243 60) = Num 0"
    by (simp add: pointer_fields)
  note select = handleMouseDown_composer_selects [OF c b]
  have "mouseMetres ?rect (pointer 1243 60) sceneCamera =
      (Num ((1243 - 8) / 65 + 2), Num ((60 - 60) / 65 + 1))"
    using select [THEN conjunct2, THEN conjunct1, rule_format, of 1243 60 8 60 65 2 1]
    by (simp add: pointer_fields sceneCamera_eval)
  then have metres: "mouseMetres ?rect (pointer 1243 60) sceneCamera = (Num 21, Num 1)"
    by simp
  note holds = select [THEN conjunct2, THEN conjunct2, THEN conjunct2, THEN conjunct1,
      rule_format, OF conjI, OF metres]
  have "\<not> boxHolds (mouseMetres ?rect (pointer 1243 60) sceneCamera) (heap sceneCamera 4)"
    and "\<not> boxHolds (mouseMetres ?rect (pointer 1243 60) sceneCamera) (heap sceneCamera 3)"
    and "boxHolds (mouseMetres ?rect (pointer 1243 60) sceneCamera) (heap sceneCamera 2)"
    using holds [of 4 0 4 0 2] holds [of 3 10 14 0 2] holds [of 2 20 24 0 2]
    by (simp_all add: sceneCamera_eval sceneFive_heap planAt_box)
  with select sceneCamera_eval
  have "images (handleMouseDown_composer (pointer 1243 60) sceneCamera) = [2, 4, 3, 1, 0]
      \<and> selectedImage (handleMouseDown_composer (pointer 1243 60) sceneCamera) = Some 2"
    by blast
  with sceneCamera_eval metres show ?thesis
    by simp
qed

section \<open>Persistence\<close>

text \<open>
  Which handlers write to the store. \<open>saveState\<close> appends one call of \<open>setItem\<close>
  with the images of the array in order; \<open>addImageCallback\<close> and the release of a
  button go through it. The handlers of the toolbar leave the store as it is.
\<close>

lemma saveState_writes:
  "localStorage (saveState s) =
     localStorage s @ [(SAVE_KEY, map (\<lambda>r. savedImage (heap s r)) (images s))]"
  by (simp add: saveState_def Let_def)

lemma addImageCallback_writes:
  "localStorage (addImageCallback im s) =
     localStorage s @
       [(SAVE_KEY, savedImage im #
           map (\<lambda>r. savedImage (if r = nextRef s then im else heap s r)) (images s))]"
  by (simp add: addImageCallback_def saveState_def Let_def)

lemma handleMouseUp_composer_writes:
  "localStorage (handleMouseUp_composer s) =
     localStorage s @ [(SAVE_KEY, map (\<lambda>r. savedImage (heap s r)) (images s))]"
  by (simp add: handleMouseUp_composer_def saveState_def Let_def)

lemma handleRotateRight_writes_nothing: "localStorage (handleRotateRight s) = localStorage s"
  by (simp add: handleRotateRight_def split: option.splits)

lemma handleRotateLeft_writes_nothing: "localStorage (handleRotateLeft s) = localStorage s"
  by (simp add: handleRotateLeft_def split: option.splits)

lemma handleDelete_writes_nothing: "localStorage (handleDelete s) = localStorage s"
  by (simp add: handleDelete_def split: option.splits)

lemma handleOpacityChange_writes_nothing:
  "localStorage (handleOpacityChange v s) = localStorage s"
  by (simp add: handleOpacityChange_def split: option.splits)

lemma handleRename_writes_nothing: "localStorage (handleRename t s) = localStorage s"
  by (simp add: handleRename_def split: option.splits)

text \<open>
  Claim C2: every mutating operation of the composer (add, move-release, rotate,
  delete, opacity change, relabel) writes the current image sequence to the store as
  part of the operation. Adding and releasing do; the four handlers of the toolbar
  change the scene and write nothing. On \<open>sceneOne\<close>, one image, added and clicked
  (two writes so far, one by the add and one by the release), each of rotate right,
  rotate left, delete, opacity change and rename changes the image or the sequence and
  leaves \<open>localStorage\<close> as it was.
\<close>

theorem toolbar_handlers_write_nothing:
  "images sceneOne = [0] \<and> selectedImage sceneOne = Some 0
   \<and> length (localStorage sceneOne) = 2
   \<and> rotationDegrees (heap sceneOne 0) = Num 0
   \<and> rotationDegrees (heap (handleRotateRight sceneOne) 0) = Num 90
   \<and> localStorage (handleRotateRight sceneOne) = localStorage sceneOne
   \<and> rotationDegrees (heap (handleRotateLeft sceneOne) 0) = Num 270
   \<and> localStorage (handleRotateLeft sceneOne) = localStorage sceneOne
   \<and> images (handleDelete sceneOne) = []
   \<and> localStorage (handleDelete sceneOne) = localStorage sceneOne
   \<and> opacity (heap sceneOne 0) = Num 1
   \<and> opacity (heap (handleOpacityChange (Num 0.5) sceneOne) 0) = Num 0.5
   \<and> localStorage (handleOpacityChange (Num 0.5) sceneOne) = localStorage sceneOne
   \<and> label (heap sceneOne 0) = None
   \<and> label (heap (handleRename (Some ''kitchen'') sceneOne) 0) = Some ''kitchen''
   \<and> localStorage (handleRename (Some ''kitchen'') sceneOne) = localStorage sceneOne"
proof -
  have "length (map fst (localStorage sceneOne)) = 2"
    by (simp add: sceneOne_eval)
  then have "length (localStorage sceneOne) = 2"
    by simp
  then show ?thesis
    by (simp add: sceneOne_eval planAt_def splice1_def handleRotateRight_def
        handleRotateLeft_def handleDelete_def handleOpacityChange_def handleRename_def)
qed

section \<open>Deleting\<close>

text \<open>
  Claim C10: deleting the selected image removes from the sequence the image whose id
  is the id of the selection and leaves the selection itself as it is, still the
  reference of the removed record; so a second delete right after finds no image with
  that id and leaves the sequence as it is; and no field of the images that remain
  changes (the store of objects is the same). The selected image is in the sequence,
  and the ids of the sequence are numbers and differ from one another, as ids do in
  the data model.
\<close>

theorem handleDelete_frame:
  assumes sel: "selectedImage s = Some r"
    and mem: "r \<in> set (images s)"
    and ids: "distinct (map (\<lambda>a. id' (heap s a)) (images s))"
    and num: "id' (heap s r) \<noteq> NaN"
  shows "images (handleDelete s) = removeAll r (images s)
       \<and> r \<notin> set (images (handleDelete s))
       \<and> selectedImage (handleDelete s) = Some r
       \<and> heap (handleDelete s) = heap s
       \<and> findIndex (\<lambda>i. js_eq (id' (heap (handleDelete s) i)) (id' (heap (handleDelete s) r)))
            (images (handleDelete s)) = None
       \<and> handleDelete (handleDelete s) = handleDelete s"
proof -
  let ?p = "\<lambda>i. js_eq (id' (heap s i)) (id' (heap s r))"
  have same: "a = r" if "a \<in> set (images s)" and "?p a" for a
  proof -
    from that(2) have "id' (heap s a) = id' (heap s r)" by (rule js_eq_imp_eq)
    with ids that(1) mem show ?thesis
      by (meson distinct_map inj_onD)
  qed
  have "?p r" using num by (simp add: js_eq_refl_iff)
  with mem have "findIndex ?p (images s) \<noteq> None"
    by (auto simp: findIndex_None_iff)
  then obtain i where i: "findIndex ?p (images s) = Some i" by auto
  then have len: "i < length (images s)" and hit: "?p (images s ! i)"
    by (simp_all add: findIndex_Some_iff)
  from len hit have at: "images s ! i = r" by (intro same) simp_all
  have dist: "distinct (images s)" using ids by (simp add: distinct_map)
  have del: "handleDelete s = s\<lparr>images := removeAll r (images s)\<rparr>"
    using sel i at splice1_distinct [OF dist len] by (simp add: handleDelete_def)
  have none: "findIndex ?p (removeAll r (images s)) = None"
    using same by (auto simp: findIndex_None_iff)
  have "handleDelete (s\<lparr>images := removeAll r (images s)\<rparr>) =
          s\<lparr>images := removeAll r (images s)\<rparr>"
    using sel none by (simp add: handleDelete_def)
  then have again: "handleDelete (handleDelete s) = handleDelete s"
    by (simp add: del)
  show ?thesis
    using sel none again by (simp add: del)
qed

text \<open>
  On \<open>sceneSelected\<close> the third image of \<open>sceneFive\<close>, with id 3, is selected and in
  front. Deleting it leaves the other four in order; the selection still is the
  object 2, which still is that image; a second delete changes nothing.
\<close>

theorem handleDelete_frame_witness:
  "selectedImage sceneSelected = Some 2
   \<and> images sceneSelected = [2, 4, 3, 1, 0]
   \<and> map (\<lambda>a. id' (heap sceneSelected a)) (images sceneSelected) =
       [Num 3, Num 5, Num 4, Num 2, Num 1]
   \<and> images (handleDelete sceneSelected) = [4, 3, 1, 0]
   \<and> selectedImage (handleDelete sceneSelected) = Some 2
   \<and> heap (handleDelete sceneSelected) 2 = planAt 20 3
   \<and> handleDelete (handleDelete sceneSelected) = handleDelete sceneSelected"
proof -
  have ids: "map (\<lambda>a. id' (heap sceneSelected a)) (images sceneSelected) =
      [Num 3, Num 5, Num 4, Num 2, Num 1]"
    by (simp add: sceneSelected_eval sceneFive_heap planAt_def)
  have "selectedImage sceneSelected = Some 2" and "2 \<in> set (images sceneSelected)"
    and "distinct (map (\<lambda>a. id' (heap sceneSelected a)) (images sceneSelected))"
    and "id' (heap sceneSelected 2) \<noteq> NaN"
    by (simp_all add: ids) (simp_all add: sceneSelected_eval sceneFive_heap planAt_def)
  from handleDelete_frame [OF this] ids show ?thesis
    by (simp add: sceneSelected_eval sceneFive_heap)
qed

end
